theory Spec2Isabelle
  imports Main "HOL-Library.Word" "HOL-Library.Signed_Division"
    "HOL-Library.Char_ord" "HOL-Library.List_Lexorder"
begin

chapter \<open>Mython: the runtime, the evaluator and the lexer\<close>

text \<open>
  A shallow embedding of \<^verbatim>\<open>runtime.cpp\<close>, \<^verbatim>\<open>statement.cpp\<close> and \<^verbatim>\<open>lexer.cpp\<close>.
  Conventions:
  \<^item> C++ \<^verbatim>\<open>int\<close> is a 32-bit two's complement word; signed overflow is undefined there,
    so an arithmetic result out of range is the outcome \<open>Undefined\<close>.
  \<^item> An exception is the outcome \<open>Throw\<close>, carrying the state reached when it was thrown
    (closures and contexts are passed by reference, so their updates survive a throw).
  \<^item> Dereferencing the null pointer that a failed \<^verbatim>\<open>TryAs\<close> returns is \<open>Undefined\<close>.
  \<^item> Class instances live in a heap and are named by address; the heap only grows.
    The use count of a \<^verbatim>\<open>shared_ptr\<close> is not part of the state. The one node that uses an
    instance after the holder it got it from is gone is \<^verbatim>\<open>MethodCall\<close>; there the other
    holders of the instance are looked up in the state (\<open>kept_alive\<close>).
  \<^item> The virtual calls \<^verbatim>\<open>Executable::Execute\<close> and \<^verbatim>\<open>Object::Print\<close> are parameters
    \<open>exec\<close> and \<open>print\<close> of every function that makes them; \<open>Execute\<close> and
    \<open>Object_Print\<close> close the recursion, counting the depth of nested calls.
\<close>

section \<open>Runtime values and syntax trees\<close>

text \<open>
  Modelled from the spec: the classes of \<^verbatim>\<open>runtime.h\<close> and \<^verbatim>\<open>statement.h\<close> are declared in
  headers that are not among the sources. Their shape is taken from the spec and from the
  way \<^verbatim>\<open>runtime.cpp\<close> and \<^verbatim>\<open>statement.cpp\<close> use them: the members each constructor
  initialises, the value of a \<^verbatim>\<open>Number\<close> being an \<^verbatim>\<open>int\<close>, a \<^verbatim>\<open>Closure\<close> being a map from
  names to holders, a \<^verbatim>\<open>Method\<close> having a name, formal parameters and a body, and
  \<^verbatim>\<open>ExeptionWithObject\<close> carrying the returned holder.
\<close>

type_synonym cint = "32 word"
type_synonym addr = nat

datatype comparator = Equal_cmp | Less_cmp | NotEqual_cmp | Greater_cmp | LessOrEqual_cmp | GreaterOrEqual_cmp

text \<open>\<^verbatim>\<open>VariableValue\<close> has two constructors: one sets \<^verbatim>\<open>name_\<close>, the other \<^verbatim>\<open>dotted_ids_\<close>.\<close>

datatype variable_value = VariableValue (var_name: string) (dotted_ids: "string list")

text \<open>
  An \<^verbatim>\<open>ObjectHolder\<close> is \<open>object option\<close>: \<open>None\<close> is the empty holder. A class is held by
  value (it is immutable once built), its parent pointer is \<open>class_obj option\<close>.
\<close>

datatype object =
    Number cint
  | String string
  | Bool bool
  | Class class_obj
  | ClassInstance addr
and class_obj = MkClass (class_name: string) (methods: "method_decl list") (parent: "class_obj option")
and method_decl = Method (method_name: string) (formal_params: "string list") (body: statement)
and statement =
    Assignment string statement
  | Variable variable_value
  | Print "statement list"
  | MethodCall statement string "statement list"
  | Stringify statement
  | Add statement statement
  | Sub statement statement
  | Mult statement statement
  | Div statement statement
  | Compound "statement list"
  | Return statement
  | ClassDefinition "object option"
  | FieldAssignment variable_value string statement
  | IfElse statement statement "statement option"
  | Or statement statement
  | And statement statement
  | Not_stmt statement
  | Comparison comparator statement statement
  | NewInstance class_obj "statement list"
  | MethodBody statement

type_synonym holder = "object option"
type_synonym closure = "string \<rightharpoonup> holder"

record class_inst =
  cls :: class_obj
  Fields :: closure

text \<open>
  The context's output stream, the heap of class instances, and the counter behind
  \<^verbatim>\<open>NewInstanceId\<close>.
\<close>

record Context =
  output_stream :: string
  heap :: "class_inst list"
  instance_id :: nat

datatype exn =
    RuntimeError string
  | ExeptionWithObject holder
  | OutOfRange

datatype ('a, 's) result =
    Done 'a 's
  | Throw exn 's
  | Undefined
  | OutOfFuel

type_synonym exec_fn = "statement \<Rightarrow> closure \<Rightarrow> Context \<Rightarrow> (holder, closure \<times> Context) result"
type_synonym print_fn = "object \<Rightarrow> Context \<Rightarrow> (string, Context) result"


section \<open>runtime.cpp\<close>

subsection \<open>Holders\<close>

text \<open>\<^verbatim>\<open>TryAs<T>\<close> is a dynamic cast of the held pointer: null when the holder is empty or holds another type.\<close>

fun TryAs_Bool :: "holder \<Rightarrow> bool option" where
  "TryAs_Bool (Some (Bool b)) = Some b"
| "TryAs_Bool _ = None"

fun TryAs_Number :: "holder \<Rightarrow> cint option" where
  "TryAs_Number (Some (Number n)) = Some n"
| "TryAs_Number _ = None"

fun TryAs_String :: "holder \<Rightarrow> string option" where
  "TryAs_String (Some (String s)) = Some s"
| "TryAs_String _ = None"

fun TryAs_Class :: "holder \<Rightarrow> class_obj option" where
  "TryAs_Class (Some (Class c)) = Some c"
| "TryAs_Class _ = None"

fun TryAs_ClassInstance :: "holder \<Rightarrow> addr option" where
  "TryAs_ClassInstance (Some (ClassInstance a)) = Some a"
| "TryAs_ClassInstance _ = None"

text \<open>Following an instance pointer; an address outside the heap is a dangling pointer.\<close>

definition deref :: "Context \<Rightarrow> addr \<Rightarrow> class_inst option" where
  "deref ctx a = (if a < length (heap ctx) then Some (heap ctx ! a) else None)"

fun IsTrue :: "holder \<Rightarrow> bool" where
  "IsTrue None = False"
| "IsTrue (Some (Bool b)) = b"
| "IsTrue (Some (Number n)) = (n \<noteq> 0)"
| "IsTrue (Some (String s)) = (s \<noteq> [])"
| "IsTrue (Some (Class c)) = False"
| "IsTrue (Some (ClassInstance a)) = False"

subsection \<open>Decimal output\<close>

text \<open>\<^verbatim>\<open>os << n\<close> and \<^verbatim>\<open>to_string(n)\<close> for integers.\<close>

definition digit_char :: "nat \<Rightarrow> char" where
  "digit_char d = char_of (of_char CHR ''0'' + d)"

fun to_string_nat :: "nat \<Rightarrow> string" where
  "to_string_nat n = (if n < 10 then [digit_char n] else to_string_nat (n div 10) @ [digit_char (n mod 10)])"

definition to_string_int :: "int \<Rightarrow> string" where
  "to_string_int k = (if k < 0 then CHR ''-'' # to_string_nat (nat (- k)) else to_string_nat (nat k))"

subsection \<open>Classes and method lookup\<close>

text \<open>
  The constructor's loop \<^verbatim>\<open>methods_map_[methods_.at(i).name] = i\<close>: of two methods with one
  name the later index stays in the map.
\<close>

fun build_methods_map :: "method_decl list \<Rightarrow> nat \<Rightarrow> (string \<rightharpoonup> nat) \<Rightarrow> (string \<rightharpoonup> nat)" where
  "build_methods_map [] i m = m"
| "build_methods_map (x # xs) i m = build_methods_map xs (Suc i) (m(method_name x \<mapsto> i))"

definition methods_map :: "method_decl list \<Rightarrow> (string \<rightharpoonup> nat)" where
  "methods_map ms = build_methods_map ms 0 Map.empty"

fun GetMethod :: "class_obj \<Rightarrow> string \<Rightarrow> method_decl option" where
  "GetMethod (MkClass nm ms None) name =
     (case methods_map ms name of
        Some i \<Rightarrow> Some (ms ! i)
      | None \<Rightarrow> None)"
| "GetMethod (MkClass nm ms (Some p)) name =
     (case methods_map ms name of
        Some i \<Rightarrow> Some (ms ! i)
      | None \<Rightarrow> GetMethod p name)"

definition HasMethod :: "class_inst \<Rightarrow> string \<Rightarrow> nat \<Rightarrow> bool" where
  "HasMethod inst method_nm argument_count =
     (case GetMethod (cls inst) method_nm of
        None \<Rightarrow> False
      | Some p_method \<Rightarrow> length (formal_params p_method) = argument_count)"

subsection \<open>Method invocation\<close>

text \<open>
  The loop \<^verbatim>\<open>locals[formal_params.at(i)] = actual_args.at(i)\<close>, run after \<^verbatim>\<open>locals["self"]\<close>
  is set. \<^verbatim>\<open>HasMethod\<close> has checked that both vectors have one length, so \<^verbatim>\<open>at\<close> never throws.
\<close>

fun bind_params :: "string list \<Rightarrow> holder list \<Rightarrow> closure \<Rightarrow> closure" where
  "bind_params (p # ps) (a # as) locals = bind_params ps as (locals(p \<mapsto> a))"
| "bind_params _ _ locals = locals"

definition Call_locals :: "addr \<Rightarrow> method_decl \<Rightarrow> holder list \<Rightarrow> closure" where
  "Call_locals this p_method actual_args =
     bind_params (formal_params p_method) actual_args (Map.empty(''self'' \<mapsto> Some (ClassInstance this)))"

definition Call :: "exec_fn \<Rightarrow> addr \<Rightarrow> string \<Rightarrow> holder list \<Rightarrow> Context \<Rightarrow> (holder, Context) result" where
  "Call exec this method_nm actual_args ctx =
     (case deref ctx this of
        None \<Rightarrow> Undefined
      | Some inst \<Rightarrow>
          if \<not> HasMethod inst method_nm (length actual_args)
          then Throw (RuntimeError (''Error call '' @ method_nm @ ''.'')) ctx
          else (case GetMethod (cls inst) method_nm of
                  None \<Rightarrow> Undefined
                | Some p_method \<Rightarrow>
                    (case exec (body p_method) (Call_locals this p_method actual_args) ctx of
                       Done v (locals, ctx') \<Rightarrow> Done v ctx'
                     | Throw e (locals, ctx') \<Rightarrow> Throw e ctx'
                     | Undefined \<Rightarrow> Undefined
                     | OutOfFuel \<Rightarrow> OutOfFuel)))"

subsection \<open>Printing\<close>

text \<open>
  \<^verbatim>\<open>Print\<close> returns the text it writes to \<^verbatim>\<open>os\<close>; the caller appends it to the stream it
  passed. What a \<^verbatim>\<open>__str__\<close> body prints on the way goes to the context's stream first.
\<close>

text \<open>
  Modelled from the spec: \<^verbatim>\<open>os << this\<close> prints an address-like token for the instance;
  its exact form is left to the implementation of the stream.
\<close>

definition pointer_repr :: "addr \<Rightarrow> string" where
  "pointer_repr a = ''0x'' @ to_string_nat a"

definition ClassInstance_Print :: "exec_fn \<Rightarrow> print_fn \<Rightarrow> addr \<Rightarrow> Context \<Rightarrow> (string, Context) result" where
  "ClassInstance_Print exec print this ctx =
     (case deref ctx this of
        None \<Rightarrow> Undefined
      | Some inst \<Rightarrow>
          if HasMethod inst ''__str__'' 0
          then (case Call exec this ''__str__'' [] ctx of
                  Done None ctx' \<Rightarrow> Undefined
                | Done (Some obj) ctx' \<Rightarrow> print obj ctx'
                | Throw e ctx' \<Rightarrow> Throw e ctx'
                | Undefined \<Rightarrow> Undefined
                | OutOfFuel \<Rightarrow> OutOfFuel)
          else Done (pointer_repr this) ctx)"

text \<open>
  Modelled from the spec: the \<^verbatim>\<open>Print\<close> of a number or string value object is defined in
  \<^verbatim>\<open>runtime.h\<close>, which is not among the sources; it writes the value. \<^verbatim>\<open>Bool::Print\<close>,
  \<^verbatim>\<open>Class::Print\<close> and \<^verbatim>\<open>ClassInstance::Print\<close> are those of \<^verbatim>\<open>runtime.cpp\<close>.
\<close>

definition Print_object :: "exec_fn \<Rightarrow> print_fn \<Rightarrow> object \<Rightarrow> Context \<Rightarrow> (string, Context) result" where
  "Print_object exec print obj ctx =
     (case obj of
        Number n \<Rightarrow> Done (to_string_int (sint n)) ctx
      | String s \<Rightarrow> Done s ctx
      | Bool b \<Rightarrow> Done (if b then ''True'' else ''False'') ctx
      | Class c \<Rightarrow> Done (''Class '' @ class_name c) ctx
      | ClassInstance a \<Rightarrow> ClassInstance_Print exec print a ctx)"

subsection \<open>Comparisons\<close>

text \<open>
  In \<open>Equal\<close> and \<open>Less\<close> the result of the user's method is unwrapped by
  \<^verbatim>\<open>.TryAs<Bool>()->GetValue()\<close> with no null check.
\<close>

definition unwrap_Bool :: "(holder, Context) result \<Rightarrow> (bool, Context) result" where
  "unwrap_Bool r =
     (case r of
        Done h ctx \<Rightarrow> (case TryAs_Bool h of Some b \<Rightarrow> Done b ctx | None \<Rightarrow> Undefined)
      | Throw e ctx \<Rightarrow> Throw e ctx
      | Undefined \<Rightarrow> Undefined
      | OutOfFuel \<Rightarrow> OutOfFuel)"

definition Equal :: "exec_fn \<Rightarrow> holder \<Rightarrow> holder \<Rightarrow> Context \<Rightarrow> (bool, Context) result" where
  "Equal exec lhs rhs ctx =
     (let no_method =
            (if lhs = None \<and> rhs = None then Done True ctx
             else Throw (RuntimeError ''Cannot compare objects for equality'') ctx)
      in
      if TryAs_Bool lhs \<noteq> None \<and> TryAs_Bool rhs \<noteq> None
      then Done (the (TryAs_Bool lhs) = the (TryAs_Bool rhs)) ctx
      else if TryAs_Number lhs \<noteq> None \<and> TryAs_Number rhs \<noteq> None
      then Done (the (TryAs_Number lhs) = the (TryAs_Number rhs)) ctx
      else if TryAs_String lhs \<noteq> None \<and> TryAs_String rhs \<noteq> None
      then Done (the (TryAs_String lhs) = the (TryAs_String rhs)) ctx
      else (case TryAs_ClassInstance lhs of
              None \<Rightarrow> no_method
            | Some a \<Rightarrow>
                (case deref ctx a of
                   None \<Rightarrow> Undefined
                 | Some inst \<Rightarrow>
                     if HasMethod inst ''__eq__'' 1
                     then unwrap_Bool (Call exec a ''__eq__'' [rhs] ctx)
                     else no_method)))"

definition Less :: "exec_fn \<Rightarrow> holder \<Rightarrow> holder \<Rightarrow> Context \<Rightarrow> (bool, Context) result" where
  "Less exec lhs rhs ctx =
     (let no_method = Throw (RuntimeError ''Cannot compare objects for less'') ctx
      in
      if TryAs_Bool lhs \<noteq> None \<and> TryAs_Bool rhs \<noteq> None
      then Done (the (TryAs_Bool lhs) < the (TryAs_Bool rhs)) ctx
      else if TryAs_Number lhs \<noteq> None \<and> TryAs_Number rhs \<noteq> None
      then Done (sint (the (TryAs_Number lhs)) < sint (the (TryAs_Number rhs))) ctx
      else if TryAs_String lhs \<noteq> None \<and> TryAs_String rhs \<noteq> None
      then Done (the (TryAs_String lhs) < the (TryAs_String rhs)) ctx
      else (case TryAs_ClassInstance lhs of
              None \<Rightarrow> no_method
            | Some a \<Rightarrow>
                (case deref ctx a of
                   None \<Rightarrow> Undefined
                 | Some inst \<Rightarrow>
                     if HasMethod inst ''__lt__'' 1
                     then unwrap_Bool (Call exec a ''__lt__'' [rhs] ctx)
                     else no_method)))"

definition negate :: "(bool, Context) result \<Rightarrow> (bool, Context) result" where
  "negate r =
     (case r of
        Done b ctx \<Rightarrow> Done (\<not> b) ctx
      | Throw e ctx \<Rightarrow> Throw e ctx
      | Undefined \<Rightarrow> Undefined
      | OutOfFuel \<Rightarrow> OutOfFuel)"

definition NotEqual :: "exec_fn \<Rightarrow> holder \<Rightarrow> holder \<Rightarrow> Context \<Rightarrow> (bool, Context) result" where
  "NotEqual exec lhs rhs ctx = negate (Equal exec lhs rhs ctx)"

text \<open>\<^verbatim>\<open>!Less(...) && NotEqual(...)\<close>: the right operand of \<^verbatim>\<open>&&\<close> runs only when the left is true.\<close>

definition Greater :: "exec_fn \<Rightarrow> holder \<Rightarrow> holder \<Rightarrow> Context \<Rightarrow> (bool, Context) result" where
  "Greater exec lhs rhs ctx =
     (case Less exec lhs rhs ctx of
        Done l ctx' \<Rightarrow> if \<not> l then NotEqual exec lhs rhs ctx' else Done False ctx'
      | Throw e ctx' \<Rightarrow> Throw e ctx'
      | Undefined \<Rightarrow> Undefined
      | OutOfFuel \<Rightarrow> OutOfFuel)"

definition LessOrEqual :: "exec_fn \<Rightarrow> holder \<Rightarrow> holder \<Rightarrow> Context \<Rightarrow> (bool, Context) result" where
  "LessOrEqual exec lhs rhs ctx = negate (Greater exec lhs rhs ctx)"

definition GreaterOrEqual :: "exec_fn \<Rightarrow> holder \<Rightarrow> holder \<Rightarrow> Context \<Rightarrow> (bool, Context) result" where
  "GreaterOrEqual exec lhs rhs ctx = negate (Less exec lhs rhs ctx)"


section \<open>statement.cpp\<close>

text \<open>A result of \<^verbatim>\<open>ClassInstance::Call\<close> or of a comparison, back in the caller's closure.\<close>

definition in_closure :: "closure \<Rightarrow> ('a, Context) result \<Rightarrow> ('a, closure \<times> Context) result" where
  "in_closure closure r =
     (case r of
        Done v ctx \<Rightarrow> Done v (closure, ctx)
      | Throw e ctx \<Rightarrow> Throw e (closure, ctx)
      | Undefined \<Rightarrow> Undefined
      | OutOfFuel \<Rightarrow> OutOfFuel)"

definition Assignment_Execute :: "exec_fn \<Rightarrow> string \<Rightarrow> statement \<Rightarrow> closure \<Rightarrow> Context \<Rightarrow> (holder, closure \<times> Context) result" where
  "Assignment_Execute exec name rv closure ctx =
     (case exec rv closure ctx of
        Done v (closure', ctx') \<Rightarrow> Done v (closure'(name \<mapsto> v), ctx')
      | r \<Rightarrow> r)"

text \<open>The loop over \<^verbatim>\<open>dotted_ids_\<close>: every identifier but the last must name a class instance.\<close>

fun VariableValue_dotted :: "Context \<Rightarrow> closure \<Rightarrow> string list \<Rightarrow> (holder, unit) result" where
  "VariableValue_dotted ctx next_closure [] = Undefined"
| "VariableValue_dotted ctx next_closure [x] =
     (case next_closure x of
        None \<Rightarrow> Throw (RuntimeError (''Unknown variable '' @ x)) ()
      | Some res \<Rightarrow> Done res ())"
| "VariableValue_dotted ctx next_closure (x # y # ys) =
     (case next_closure x of
        None \<Rightarrow> Throw (RuntimeError (''Unknown variable '' @ x)) ()
      | Some res \<Rightarrow>
          (case TryAs_ClassInstance res of
             None \<Rightarrow> Throw (RuntimeError ''Instance is not a class'') ()
           | Some a \<Rightarrow>
               (case deref ctx a of
                  None \<Rightarrow> Undefined
                | Some inst \<Rightarrow> VariableValue_dotted ctx (Fields inst) (y # ys))))"

definition VariableValue_Execute :: "variable_value \<Rightarrow> closure \<Rightarrow> Context \<Rightarrow> (holder, closure \<times> Context) result" where
  "VariableValue_Execute v closure ctx =
     (if var_name v \<noteq> []
      then (case closure (var_name v) of
              Some res \<Rightarrow> Done res (closure, ctx)
            | None \<Rightarrow> Throw (RuntimeError (''Unknown variable '' @ var_name v)) (closure, ctx))
      else if dotted_ids v \<noteq> []
      then (case VariableValue_dotted ctx closure (dotted_ids v) of
              Done res u \<Rightarrow> Done res (closure, ctx)
            | Throw e u \<Rightarrow> Throw e (closure, ctx)
            | Undefined \<Rightarrow> Undefined
            | OutOfFuel \<Rightarrow> OutOfFuel)
      else Throw (RuntimeError ''Unknown variable'') (closure, ctx))"

definition write_output :: "string \<Rightarrow> Context \<Rightarrow> Context" where
  "write_output text ctx = ctx\<lparr>output_stream := output_stream ctx @ text\<rparr>"

definition print_holder :: "print_fn \<Rightarrow> holder \<Rightarrow> Context \<Rightarrow> (string, Context) result" where
  "print_holder print obj ctx =
     (case obj of
        Some ob \<Rightarrow> print ob ctx
      | None \<Rightarrow> Done ''None'' ctx)"

fun Print_loop :: "exec_fn \<Rightarrow> print_fn \<Rightarrow> statement list \<Rightarrow> closure \<Rightarrow> Context \<Rightarrow> (unit, closure \<times> Context) result" where
  "Print_loop exec print [] closure ctx = Done () (closure, ctx)"
| "Print_loop exec print (arg # args) closure ctx =
     (case exec arg closure ctx of
        Done obj (closure1, ctx1) \<Rightarrow>
          (case print_holder print obj ctx1 of
             Done text ctx2 \<Rightarrow>
               Print_loop exec print args closure1
                 (write_output (if args \<noteq> [] then '' '' else []) (write_output text ctx2))
           | Throw e ctx2 \<Rightarrow> Throw e (closure1, ctx2)
           | Undefined \<Rightarrow> Undefined
           | OutOfFuel \<Rightarrow> OutOfFuel)
      | Throw e st \<Rightarrow> Throw e st
      | Undefined \<Rightarrow> Undefined
      | OutOfFuel \<Rightarrow> OutOfFuel)"

definition Print_Execute :: "exec_fn \<Rightarrow> print_fn \<Rightarrow> statement list \<Rightarrow> closure \<Rightarrow> Context \<Rightarrow> (holder, closure \<times> Context) result" where
  "Print_Execute exec print args closure ctx =
     (case Print_loop exec print args closure ctx of
        Done u (closure', ctx') \<Rightarrow> Done None (closure', write_output [CHR 0x0A] ctx')
      | Throw e st \<Rightarrow> Throw e st
      | Undefined \<Rightarrow> Undefined
      | OutOfFuel \<Rightarrow> OutOfFuel)"

text \<open>The loop filling \<^verbatim>\<open>args_executed\<close>, first argument first.\<close>

fun Execute_args :: "exec_fn \<Rightarrow> statement list \<Rightarrow> closure \<Rightarrow> Context \<Rightarrow> (holder list, closure \<times> Context) result" where
  "Execute_args exec [] closure ctx = Done [] (closure, ctx)"
| "Execute_args exec (arg # args) closure ctx =
     (case exec arg closure ctx of
        Done v (closure1, ctx1) \<Rightarrow>
          (case Execute_args exec args closure1 ctx1 of
             Done vs st \<Rightarrow> Done (v # vs) st
           | r \<Rightarrow> r)
      | Throw e st \<Rightarrow> Throw e st
      | Undefined \<Rightarrow> Undefined
      | OutOfFuel \<Rightarrow> OutOfFuel)"

text \<open>
  \<^verbatim>\<open>runtime::ClassInstance* class_obj = object_->Execute(closure, context).TryAs<...>();\<close>
  The holder that \<^verbatim>\<open>Execute\<close> returns is a temporary of this statement and is destroyed
  at its end; \<^verbatim>\<open>class_obj\<close> is a plain pointer. If the temporary was the last holder that
  owns the instance, the instance is destroyed with it, and \<^verbatim>\<open>class_obj->HasMethod\<close> reads
  a dead object. The same holds for \<^verbatim>\<open>class_obj->Call\<close> when the evaluation of the arguments
  has removed the last holder.

  The holders that can be left at these two points are entries of the closure, fields of
  instances and the arguments already evaluated: what a holder local to a caller keeps
  alive reaches this code only through an entry of the closure (\<^verbatim>\<open>self\<close>, a parameter)
  or through a field. \<open>kept_alive\<close> looks for such a holder. Where it finds none, the
  instance is destroyed: instances are owned by holders, as \<^verbatim>\<open>NewInstance\<close> makes them with
  \<^verbatim>\<open>ObjectHolder::Own\<close>. Where it finds one, the instance is taken to be alive: the state
  does not tell a holder made by \<^verbatim>\<open>ObjectHolder::Share\<close>, which does not own, from one that
  owns, nor the fields of an instance that is itself destroyed.
\<close>

definition kept_alive :: "closure \<Rightarrow> Context \<Rightarrow> holder list \<Rightarrow> addr \<Rightarrow> bool" where
  "kept_alive closure ctx args_executed class_obj =
     (Some (ClassInstance class_obj) \<in> ran closure
      \<or> list_ex (\<lambda>inst. Some (ClassInstance class_obj) \<in> ran (Fields inst)) (heap ctx)
      \<or> Some (ClassInstance class_obj) \<in> set args_executed)"

definition MethodCall_Execute :: "exec_fn \<Rightarrow> statement \<Rightarrow> string \<Rightarrow> statement list \<Rightarrow> closure \<Rightarrow> Context \<Rightarrow> (holder, closure \<times> Context) result" where
  "MethodCall_Execute exec object method_nm args closure ctx =
     (case exec object closure ctx of
        Done obj (closure1, ctx1) \<Rightarrow>
          (case TryAs_ClassInstance obj of
             None \<Rightarrow> Done None (closure1, ctx1)
           | Some class_obj \<Rightarrow>
               if kept_alive closure1 ctx1 [] class_obj
               then (case deref ctx1 class_obj of
                       None \<Rightarrow> Undefined
                     | Some inst \<Rightarrow>
                         if HasMethod inst method_nm (length args)
                         then (case Execute_args exec args closure1 ctx1 of
                                 Done args_executed (closure2, ctx2) \<Rightarrow>
                                   if kept_alive closure2 ctx2 args_executed class_obj
                                   then in_closure closure2 (Call exec class_obj method_nm args_executed ctx2)
                                   else Undefined
                               | Throw e st \<Rightarrow> Throw e st
                               | Undefined \<Rightarrow> Undefined
                               | OutOfFuel \<Rightarrow> OutOfFuel)
                         else Done None (closure1, ctx1))
               else Undefined)
      | r \<Rightarrow> r)"

definition Stringify_Execute :: "exec_fn \<Rightarrow> print_fn \<Rightarrow> statement \<Rightarrow> closure \<Rightarrow> Context \<Rightarrow> (holder, closure \<times> Context) result" where
  "Stringify_Execute exec print arg closure ctx =
     (case exec arg closure ctx of
        Done res (closure1, ctx1) \<Rightarrow>
          (case print_holder print res ctx1 of
             Done text ctx2 \<Rightarrow> Done (Some (String text)) (closure1, ctx2)
           | Throw e ctx2 \<Rightarrow> Throw e (closure1, ctx2)
           | Undefined \<Rightarrow> Undefined
           | OutOfFuel \<Rightarrow> OutOfFuel)
      | r \<Rightarrow> r)"


subsection \<open>Binary operations\<close>

text \<open>
  Every binary operation begins with \<^verbatim>\<open>lhs_->Execute\<close> and then \<^verbatim>\<open>rhs_->Execute\<close>;
  \<open>k\<close> is the rest of the body.
\<close>

definition both_operands ::
  "exec_fn \<Rightarrow> statement \<Rightarrow> statement \<Rightarrow> closure \<Rightarrow> Context
   \<Rightarrow> (holder \<Rightarrow> holder \<Rightarrow> closure \<times> Context \<Rightarrow> (holder, closure \<times> Context) result)
   \<Rightarrow> (holder, closure \<times> Context) result" where
  "both_operands exec lhs rhs closure ctx k =
     (case exec lhs closure ctx of
        Done lhs_obj (closure1, ctx1) \<Rightarrow>
          (case exec rhs closure1 ctx1 of
             Done rhs_obj st2 \<Rightarrow> k lhs_obj rhs_obj st2
           | r \<Rightarrow> r)
      | r \<Rightarrow> r)"

text \<open>A value of type \<^verbatim>\<open>int\<close>: a result that does not fit is a signed overflow.\<close>

definition INT_MIN :: int where
  "INT_MIN = - (2 ^ 31)"

definition INT_MAX :: int where
  "INT_MAX = 2 ^ 31 - 1"

definition own_Number :: "int \<Rightarrow> closure \<times> Context \<Rightarrow> (holder, closure \<times> Context) result" where
  "own_Number k st =
     (if INT_MIN \<le> k \<and> k \<le> INT_MAX then Done (Some (Number (word_of_int k))) st else Undefined)"

definition Add_Execute :: "exec_fn \<Rightarrow> statement \<Rightarrow> statement \<Rightarrow> closure \<Rightarrow> Context \<Rightarrow> (holder, closure \<times> Context) result" where
  "Add_Execute exec lhs rhs closure ctx =
     both_operands exec lhs rhs closure ctx (\<lambda>lhs_obj rhs_obj (closure2, ctx2).
       if TryAs_String lhs_obj \<noteq> None \<and> TryAs_String rhs_obj \<noteq> None
       then Done (Some (String (the (TryAs_String lhs_obj) @ the (TryAs_String rhs_obj)))) (closure2, ctx2)
       else if TryAs_Number lhs_obj \<noteq> None \<and> TryAs_Number rhs_obj \<noteq> None
       then own_Number (sint (the (TryAs_Number lhs_obj)) + sint (the (TryAs_Number rhs_obj))) (closure2, ctx2)
       else (case TryAs_ClassInstance lhs_obj of
               None \<Rightarrow> Throw (RuntimeError ''Addition is not implemented for these operands'') (closure2, ctx2)
             | Some lhs_class \<Rightarrow>
                 (case deref ctx2 lhs_class of
                    None \<Rightarrow> Undefined
                  | Some inst \<Rightarrow>
                      if HasMethod inst ''__add__'' 1
                      then in_closure closure2 (Call exec lhs_class ''__add__'' [rhs_obj] ctx2)
                      else Throw (RuntimeError ''Addition is not implemented for these operands'') (closure2, ctx2))))"

definition Sub_Execute :: "exec_fn \<Rightarrow> statement \<Rightarrow> statement \<Rightarrow> closure \<Rightarrow> Context \<Rightarrow> (holder, closure \<times> Context) result" where
  "Sub_Execute exec lhs rhs closure ctx =
     both_operands exec lhs rhs closure ctx (\<lambda>lhs_obj rhs_obj st.
       if TryAs_Number lhs_obj \<noteq> None \<and> TryAs_Number rhs_obj \<noteq> None
       then own_Number (sint (the (TryAs_Number lhs_obj)) - sint (the (TryAs_Number rhs_obj))) st
       else Throw (RuntimeError ''Subtraction is not implemented for these operands'') st)"

definition Mult_Execute :: "exec_fn \<Rightarrow> statement \<Rightarrow> statement \<Rightarrow> closure \<Rightarrow> Context \<Rightarrow> (holder, closure \<times> Context) result" where
  "Mult_Execute exec lhs rhs closure ctx =
     both_operands exec lhs rhs closure ctx (\<lambda>lhs_obj rhs_obj st.
       if TryAs_Number lhs_obj \<noteq> None \<and> TryAs_Number rhs_obj \<noteq> None
       then own_Number (sint (the (TryAs_Number lhs_obj)) * sint (the (TryAs_Number rhs_obj))) st
       else Throw (RuntimeError ''Multiplication is not implemented for these operands'') st)"

text \<open>
  C++ integer division truncates towards zero (\<open>sdiv\<close>); its one overflow is
  \<^verbatim>\<open>INT_MIN / -1\<close>.
\<close>

definition Div_Execute :: "exec_fn \<Rightarrow> statement \<Rightarrow> statement \<Rightarrow> closure \<Rightarrow> Context \<Rightarrow> (holder, closure \<times> Context) result" where
  "Div_Execute exec lhs rhs closure ctx =
     both_operands exec lhs rhs closure ctx (\<lambda>lhs_obj rhs_obj st.
       if TryAs_Number lhs_obj \<noteq> None \<and> TryAs_Number rhs_obj \<noteq> None \<and> the (TryAs_Number rhs_obj) \<noteq> 0
       then own_Number (sint (the (TryAs_Number lhs_obj)) sdiv sint (the (TryAs_Number rhs_obj))) st
       else Throw (RuntimeError ''Division is not implemented for these operands'') st)"

definition Or_Execute :: "exec_fn \<Rightarrow> statement \<Rightarrow> statement \<Rightarrow> closure \<Rightarrow> Context \<Rightarrow> (holder, closure \<times> Context) result" where
  "Or_Execute exec lhs rhs closure ctx =
     both_operands exec lhs rhs closure ctx (\<lambda>lhs_obj rhs_obj st.
       if lhs_obj \<noteq> None \<and> rhs_obj \<noteq> None
       then Done (Some (Bool (IsTrue lhs_obj \<or> IsTrue rhs_obj))) st
       else Throw (RuntimeError ([CHR 0x27] @ ''Or'' @ [CHR 0x27] @ '' is not implemented for these operands'')) st)"


definition And_Execute :: "exec_fn \<Rightarrow> statement \<Rightarrow> statement \<Rightarrow> closure \<Rightarrow> Context \<Rightarrow> (holder, closure \<times> Context) result" where
  "And_Execute exec lhs rhs closure ctx =
     both_operands exec lhs rhs closure ctx (\<lambda>lhs_obj rhs_obj st.
       if lhs_obj \<noteq> None \<and> rhs_obj \<noteq> None
       then Done (Some (Bool (IsTrue lhs_obj \<and> IsTrue rhs_obj))) st
       else Throw (RuntimeError ([CHR 0x27] @ ''And'' @ [CHR 0x27] @ '' is not implemented for these operands'')) st)"

fun apply_comparator :: "comparator \<Rightarrow> exec_fn \<Rightarrow> holder \<Rightarrow> holder \<Rightarrow> Context \<Rightarrow> (bool, Context) result" where
  "apply_comparator Equal_cmp = Equal"
| "apply_comparator Less_cmp = Less"
| "apply_comparator NotEqual_cmp = NotEqual"
| "apply_comparator Greater_cmp = Greater"
| "apply_comparator LessOrEqual_cmp = LessOrEqual"
| "apply_comparator GreaterOrEqual_cmp = GreaterOrEqual"

definition Comparison_Execute :: "exec_fn \<Rightarrow> comparator \<Rightarrow> statement \<Rightarrow> statement \<Rightarrow> closure \<Rightarrow> Context \<Rightarrow> (holder, closure \<times> Context) result" where
  "Comparison_Execute exec cmp lhs rhs closure ctx =
     both_operands exec lhs rhs closure ctx (\<lambda>lhs_obj rhs_obj (closure2, ctx2).
       case apply_comparator cmp exec lhs_obj rhs_obj ctx2 of
         Done b ctx3 \<Rightarrow> Done (Some (Bool b)) (closure2, ctx3)
       | Throw e ctx3 \<Rightarrow> Throw e (closure2, ctx3)
       | Undefined \<Rightarrow> Undefined
       | OutOfFuel \<Rightarrow> OutOfFuel)"

subsection \<open>The other nodes\<close>

definition Not_Execute :: "exec_fn \<Rightarrow> statement \<Rightarrow> closure \<Rightarrow> Context \<Rightarrow> (holder, closure \<times> Context) result" where
  "Not_Execute exec arg closure ctx =
     (case exec arg closure ctx of
        Done obj st \<Rightarrow>
          if obj \<noteq> None then Done (Some (Bool (\<not> IsTrue obj))) st
          else Throw (RuntimeError ([CHR 0x27] @ ''Not'' @ [CHR 0x27] @ '' is not implemented for this argument'')) st
      | r \<Rightarrow> r)"

fun Compound_loop :: "exec_fn \<Rightarrow> statement list \<Rightarrow> closure \<Rightarrow> Context \<Rightarrow> (holder, closure \<times> Context) result" where
  "Compound_loop exec [] closure ctx = Done None (closure, ctx)"
| "Compound_loop exec (stmt # stmts) closure ctx =
     (case exec stmt closure ctx of
        Done v (closure1, ctx1) \<Rightarrow> Compound_loop exec stmts closure1 ctx1
      | r \<Rightarrow> r)"

definition Compound_Execute :: "exec_fn \<Rightarrow> statement list \<Rightarrow> closure \<Rightarrow> Context \<Rightarrow> (holder, closure \<times> Context) result" where
  "Compound_Execute exec args closure ctx = Compound_loop exec args closure ctx"

definition Return_Execute :: "exec_fn \<Rightarrow> statement \<Rightarrow> closure \<Rightarrow> Context \<Rightarrow> (holder, closure \<times> Context) result" where
  "Return_Execute exec stmt closure ctx =
     (case exec stmt closure ctx of
        Done res_obj st \<Rightarrow> Throw (ExeptionWithObject res_obj) st
      | r \<Rightarrow> r)"

text \<open>\<^verbatim>\<open>cls_.TryAs<runtime::Class>()->GetName()\<close>, unchecked.\<close>

definition ClassDefinition_Execute :: "holder \<Rightarrow> closure \<Rightarrow> Context \<Rightarrow> (holder, closure \<times> Context) result" where
  "ClassDefinition_Execute cls_holder closure ctx =
     (case TryAs_Class cls_holder of
        None \<Rightarrow> Undefined
      | Some c \<Rightarrow> Done cls_holder (closure(class_name c \<mapsto> cls_holder), ctx))"

text \<open>
  \<^verbatim>\<open>obj.TryAs<runtime::ClassInstance>()->Fields()\<close> is unchecked as well, and comes before
  the right-hand side is executed. The field is then set in the instance as the heap has
  it after the right-hand side has run.
\<close>

definition set_field :: "addr \<Rightarrow> string \<Rightarrow> holder \<Rightarrow> Context \<Rightarrow> Context" where
  "set_field a field_name v ctx =
     ctx\<lparr>heap := (heap ctx)[a := (heap ctx ! a)\<lparr>Fields := (Fields (heap ctx ! a))(field_name \<mapsto> v)\<rparr>]\<rparr>"

definition FieldAssignment_Execute :: "exec_fn \<Rightarrow> variable_value \<Rightarrow> string \<Rightarrow> statement \<Rightarrow> closure \<Rightarrow> Context \<Rightarrow> (holder, closure \<times> Context) result" where
  "FieldAssignment_Execute exec object field_name rv closure ctx =
     (case VariableValue_Execute object closure ctx of
        Done obj st \<Rightarrow>
          (case TryAs_ClassInstance obj of
             None \<Rightarrow> Undefined
           | Some a \<Rightarrow>
               (case deref ctx a of
                  None \<Rightarrow> Undefined
                | Some inst \<Rightarrow>
                    (case exec rv closure ctx of
                       Done v (closure1, ctx1) \<Rightarrow>
                         (case deref ctx1 a of
                            None \<Rightarrow> Undefined
                          | Some inst1 \<Rightarrow> Done v (closure1, set_field a field_name v ctx1))
                     | r \<Rightarrow> r)))
      | r \<Rightarrow> r)"

definition IfElse_Execute :: "exec_fn \<Rightarrow> statement \<Rightarrow> statement \<Rightarrow> statement option \<Rightarrow> closure \<Rightarrow> Context \<Rightarrow> (holder, closure \<times> Context) result" where
  "IfElse_Execute exec condition if_body else_body closure ctx =
     (case exec condition closure ctx of
        Done condition_obj (closure1, ctx1) \<Rightarrow>
          if IsTrue condition_obj then exec if_body closure1 ctx1
          else (case else_body of
                  Some eb \<Rightarrow> exec eb closure1 ctx1
                | None \<Rightarrow> Done None (closure1, ctx1))
      | r \<Rightarrow> r)"

text \<open>
  Modelled from the spec: \<^verbatim>\<open>NewInstanceId\<close> is declared in \<^verbatim>\<open>statement.h\<close>, which is not
  among the sources; the spec asks for a synthetic, unique name, so each call yields the
  next number.
\<close>

definition NewInstanceId :: "Context \<Rightarrow> nat \<times> Context" where
  "NewInstanceId ctx = (instance_id ctx, ctx\<lparr>instance_id := Suc (instance_id ctx)\<rparr>)"

definition closure_at :: "closure \<Rightarrow> string \<Rightarrow> closure \<times> Context \<Rightarrow> (holder, closure \<times> Context) result" where
  "closure_at closure name st =
     (case closure name of
        Some h \<Rightarrow> Done h st
      | None \<Rightarrow> Throw OutOfRange st)"

definition NewInstance_Execute :: "exec_fn \<Rightarrow> class_obj \<Rightarrow> statement list \<Rightarrow> closure \<Rightarrow> Context \<Rightarrow> (holder, closure \<times> Context) result" where
  "NewInstance_Execute exec class args closure ctx =
     (let (id, ctx0) = NewInstanceId ctx;
          name = to_string_nat id @ ''_'' @ class_name class;
          class_instance = \<lparr>cls = class, Fields = Map.empty\<rparr>;
          class_inst = length (heap ctx0);
          ctx1 = ctx0\<lparr>heap := heap ctx0 @ [class_instance]\<rparr>;
          closure1 = closure(name \<mapsto> Some (ClassInstance class_inst))
      in
      if HasMethod class_instance ''__init__'' (length args)
      then (case Execute_args exec args closure1 ctx1 of
              Done args_executed (closure2, ctx2) \<Rightarrow>
                (case Call exec class_inst ''__init__'' args_executed ctx2 of
                   Done v ctx3 \<Rightarrow> closure_at closure2 name (closure2, ctx3)
                 | Throw e ctx3 \<Rightarrow> Throw e (closure2, ctx3)
                 | Undefined \<Rightarrow> Undefined
                 | OutOfFuel \<Rightarrow> OutOfFuel)
            | Throw e st \<Rightarrow> Throw e st
            | Undefined \<Rightarrow> Undefined
            | OutOfFuel \<Rightarrow> OutOfFuel)
      else closure_at closure1 name (closure1, ctx1))"

definition MethodBody_Execute :: "exec_fn \<Rightarrow> statement \<Rightarrow> closure \<Rightarrow> Context \<Rightarrow> (holder, closure \<times> Context) result" where
  "MethodBody_Execute exec body_stmt closure ctx =
     (case exec body_stmt closure ctx of
        Done result st \<Rightarrow> Done None st
      | Throw (ExeptionWithObject obj) st \<Rightarrow> Done obj st
      | r \<Rightarrow> r)"

subsection \<open>Dispatch and the evaluator\<close>

definition Execute_node :: "exec_fn \<Rightarrow> print_fn \<Rightarrow> statement \<Rightarrow> closure \<Rightarrow> Context \<Rightarrow> (holder, closure \<times> Context) result" where
  "Execute_node exec print stmt closure ctx =
     (case stmt of
        Assignment name rv \<Rightarrow> Assignment_Execute exec name rv closure ctx
      | Variable v \<Rightarrow> VariableValue_Execute v closure ctx
      | Print args \<Rightarrow> Print_Execute exec print args closure ctx
      | MethodCall object method_nm args \<Rightarrow> MethodCall_Execute exec object method_nm args closure ctx
      | Stringify arg \<Rightarrow> Stringify_Execute exec print arg closure ctx
      | Add lhs rhs \<Rightarrow> Add_Execute exec lhs rhs closure ctx
      | Sub lhs rhs \<Rightarrow> Sub_Execute exec lhs rhs closure ctx
      | Mult lhs rhs \<Rightarrow> Mult_Execute exec lhs rhs closure ctx
      | Div lhs rhs \<Rightarrow> Div_Execute exec lhs rhs closure ctx
      | Compound args \<Rightarrow> Compound_Execute exec args closure ctx
      | Return s \<Rightarrow> Return_Execute exec s closure ctx
      | ClassDefinition c \<Rightarrow> ClassDefinition_Execute c closure ctx
      | FieldAssignment object field_name rv \<Rightarrow> FieldAssignment_Execute exec object field_name rv closure ctx
      | IfElse condition if_body else_body \<Rightarrow> IfElse_Execute exec condition if_body else_body closure ctx
      | Or lhs rhs \<Rightarrow> Or_Execute exec lhs rhs closure ctx
      | And lhs rhs \<Rightarrow> And_Execute exec lhs rhs closure ctx
      | Not_stmt arg \<Rightarrow> Not_Execute exec arg closure ctx
      | Comparison cmp lhs rhs \<Rightarrow> Comparison_Execute exec cmp lhs rhs closure ctx
      | NewInstance c args \<Rightarrow> NewInstance_Execute exec c args closure ctx
      | MethodBody b \<Rightarrow> MethodBody_Execute exec b closure ctx)"

text \<open>
  \<open>Execute n\<close> runs a statement with room for \<open>n\<close> nested calls of \<^verbatim>\<open>Execute\<close> and
  \<^verbatim>\<open>Print\<close>; \<open>OutOfFuel\<close> says the room did not suffice.
\<close>

fun Execute :: "nat \<Rightarrow> statement \<Rightarrow> closure \<Rightarrow> Context \<Rightarrow> (holder, closure \<times> Context) result"
  and Object_Print :: "nat \<Rightarrow> object \<Rightarrow> Context \<Rightarrow> (string, Context) result" where
  "Execute 0 stmt closure ctx = OutOfFuel"
| "Execute (Suc n) stmt closure ctx = Execute_node (Execute n) (Object_Print n) stmt closure ctx"
| "Object_Print 0 obj ctx = OutOfFuel"
| "Object_Print (Suc n) obj ctx = Print_object (Execute n) (Object_Print n) obj ctx"


section \<open>lexer.h, lexer.cpp\<close>

datatype token =
    Number_tok cint
  | Id_tok string
  | Char_tok char
  | String_tok string
  | Class_tok
  | Return_tok
  | If_tok
  | Else_tok
  | Def_tok
  | Newline_tok
  | Print_tok
  | Indent_tok
  | Dedent_tok
  | And_tok
  | Or_tok
  | Not_tok
  | Eq_tok
  | NotEq_tok
  | LessOrEq_tok
  | GreaterOrEq_tok
  | None_tok
  | True_tok
  | False_tok
  | Eof_tok

text \<open>
  What a call of the lexer comes to: a value, an exception (\<^verbatim>\<open>LexerError\<close>, or what
  \<^verbatim>\<open>std::stoi\<close> throws), a loop that never ends, or a failed \<^verbatim>\<open>assert\<close>.
\<close>

datatype lexer_exn = LexerError string | out_of_range | invalid_argument

datatype 'a lexed = Lexed 'a | Throws lexer_exn | Hangs | Aborts

subsection \<open>The input stream\<close>

text \<open>
  A \<^verbatim>\<open>std::istream\<close> over a string buffer: the characters read so far (the last one
  first; \<^verbatim>\<open>unget\<close> steps back over them), the characters still to read, and the state
  flags. Every unformatted input function first builds a sentry, which sets \<^verbatim>\<open>failbit\<close>
  on a stream that is not \<^verbatim>\<open>good()\<close>; \<^verbatim>\<open>get\<close> at the end of the buffer sets \<^verbatim>\<open>eofbit\<close>
  and \<^verbatim>\<open>failbit\<close>, \<^verbatim>\<open>peek\<close> there sets \<^verbatim>\<open>eofbit\<close>; \<^verbatim>\<open>unget\<close> clears \<^verbatim>\<open>eofbit\<close> before its
  sentry (C++11). The result \<open>None\<close> of \<open>get\<close> and \<open>peek\<close> is \<^verbatim>\<open>EOF\<close>.
\<close>

record istream =
  consumed :: string
  remaining :: string
  eofbit :: bool
  failbit :: bool
  badbit :: bool

definition istringstream :: "string \<Rightarrow> istream" where
  "istringstream str = \<lparr>consumed = [], remaining = str, eofbit = False, failbit = False, badbit = False\<rparr>"

definition good :: "istream \<Rightarrow> bool" where
  "good s = (\<not> eofbit s \<and> \<not> failbit s \<and> \<not> badbit s)"

definition eof :: "istream \<Rightarrow> bool" where
  "eof s = eofbit s"

definition peek :: "istream \<Rightarrow> char option \<times> istream" where
  "peek s =
     (if good s
      then (case remaining s of
              [] \<Rightarrow> (None, s\<lparr>eofbit := True\<rparr>)
            | c # cs \<Rightarrow> (Some c, s))
      else (None, s\<lparr>failbit := True\<rparr>))"

definition get :: "istream \<Rightarrow> char option \<times> istream" where
  "get s =
     (if good s
      then (case remaining s of
              [] \<Rightarrow> (None, s\<lparr>eofbit := True, failbit := True\<rparr>)
            | c # cs \<Rightarrow> (Some c, s\<lparr>consumed := c # consumed s, remaining := cs\<rparr>))
      else (None, s\<lparr>failbit := True\<rparr>))"

definition unget :: "istream \<Rightarrow> istream" where
  "unget s =
     (let s1 = s\<lparr>eofbit := False\<rparr>
      in if good s1
         then (case consumed s1 of
                 [] \<Rightarrow> s1\<lparr>badbit := True\<rparr>
               | c # cs \<Rightarrow> s1\<lparr>consumed := cs, remaining := c # remaining s1\<rparr>)
         else s1\<lparr>failbit := True\<rparr>)"

text \<open>
  \<^verbatim>\<open>std::istreambuf_iterator\<close> reads the buffer itself and touches no flag: \<^verbatim>\<open>*it\<close> and
  \<^verbatim>\<open>it == end\<close> are \<open>sgetc\<close>, \<^verbatim>\<open>++it\<close> is \<open>sbumpc\<close>.
\<close>

definition sgetc :: "istream \<Rightarrow> char option" where
  "sgetc s = (case remaining s of [] \<Rightarrow> None | c # cs \<Rightarrow> Some c)"

definition sbumpc :: "istream \<Rightarrow> istream" where
  "sbumpc s =
     (case remaining s of
        [] \<Rightarrow> s
      | c # cs \<Rightarrow> s\<lparr>consumed := c # consumed s, remaining := cs\<rparr>)"

text \<open>
  A value of \<^verbatim>\<open>get\<close> or \<^verbatim>\<open>peek\<close> stored in a \<^verbatim>\<open>char\<close>: \<^verbatim>\<open>EOF\<close> becomes the byte 0xFF.
  \<^verbatim>\<open>char\<close> is signed (as on x86), so that byte compares equal to \<^verbatim>\<open>EOF\<close> again, and so
  does a byte 0xFF of the input.
\<close>

definition to_char :: "char option \<Rightarrow> char" where
  "to_char r = (case r of None \<Rightarrow> CHR 0xFF | Some c \<Rightarrow> c)"

definition is_EOF :: "char \<Rightarrow> bool" where
  "is_EOF ch = (ch = CHR 0xFF)"

text \<open>\<^verbatim>\<open>isdigit\<close> and \<^verbatim>\<open>isalpha\<close> in the C locale; false for every byte outside ASCII.\<close>

definition isdigit :: "char \<Rightarrow> bool" where
  "isdigit c = (CHR ''0'' \<le> c \<and> c \<le> CHR ''9'')"

definition isalpha :: "char \<Rightarrow> bool" where
  "isalpha c = ((CHR ''a'' \<le> c \<and> c \<le> CHR ''z'') \<or> (CHR ''A'' \<le> c \<and> c \<le> CHR ''Z''))"


subsection \<open>LineOfCode\<close>

record LineOfCode =
  starting_spaces :: nat
  line_tokens :: "token list"

definition emplace_back :: "token \<Rightarrow> LineOfCode \<Rightarrow> LineOfCode" where
  "emplace_back t line = line\<lparr>line_tokens := line_tokens line @ [t]\<rparr>"

definition IsEmpty :: "LineOfCode \<Rightarrow> bool" where
  "IsEmpty line = (line_tokens line = [] \<or> list_all (\<lambda>t. t = Newline_tok) (line_tokens line))"

definition IsAllEof :: "LineOfCode \<Rightarrow> bool" where
  "IsAllEof line = (line_tokens line = [] \<or> list_all (\<lambda>t. t = Eof_tok) (line_tokens line))"

text \<open>\<^verbatim>\<open>while (input.peek() == '\n') input.get();\<close>\<close>

function SkipNewLinesOnly :: "istream \<Rightarrow> istream" where
  "SkipNewLinesOnly s =
     (case peek s of
        (Some c, s1) \<Rightarrow> if c = CHR 0x0A then SkipNewLinesOnly (snd (get s1)) else s1
      | (None, s1) \<Rightarrow> s1)"
  by pat_completeness auto
termination
  by (relation "measure (\<lambda>s. length (remaining s))")
     (auto simp: peek_def get_def split: if_splits list.splits)

text \<open>\<^verbatim>\<open>while (input_.get() == ' ') ++count; input_.unget();\<close>\<close>

function ProcessSpaces_loop :: "istream \<Rightarrow> nat \<Rightarrow> nat \<times> istream" where
  "ProcessSpaces_loop s count =
     (case get s of
        (Some c, s1) \<Rightarrow> if c = CHR '' '' then ProcessSpaces_loop s1 (Suc count) else (count, s1)
      | (None, s1) \<Rightarrow> (count, s1))"
  by pat_completeness auto
termination
  by (relation "measure (\<lambda>(s, count). length (remaining s))")
     (auto simp: get_def split: if_splits list.splits)

definition ProcessSpaces :: "istream \<Rightarrow> nat \<times> istream" where
  "ProcessSpaces s = (case ProcessSpaces_loop s 0 of (count, s1) \<Rightarrow> (count, unget s1))"

text \<open>
  \<^verbatim>\<open>for (; !(input_.get() == '\n' || input_.eof()););  input_.unget();\<close>
  When \<^verbatim>\<open>get\<close> fails and \<^verbatim>\<open>eofbit\<close> is not set, the stream was not \<^verbatim>\<open>good()\<close> before the
  call and \<^verbatim>\<open>get\<close> changed nothing but \<^verbatim>\<open>failbit\<close>, which was set or is now: every later
  round is the same and the loop never ends. That is the result \<open>None\<close>.
\<close>

function ProcessComment_loop :: "istream \<Rightarrow> istream option" where
  "ProcessComment_loop s =
     (case get s of
        (Some c, s1) \<Rightarrow> if c = CHR 0x0A \<or> eof s1 then Some s1 else ProcessComment_loop s1
      | (None, s1) \<Rightarrow> if eof s1 then Some s1 else None)"
  by pat_completeness auto
termination
  by (relation "measure (\<lambda>s. length (remaining s))")
     (auto simp: get_def split: if_splits list.splits)

definition ProcessComment :: "istream \<Rightarrow> istream lexed" where
  "ProcessComment s =
     (case ProcessComment_loop s of
        Some s1 \<Rightarrow> Lexed (unget s1)
      | None \<Rightarrow> Hangs)"

text \<open>
  \<^verbatim>\<open>while (std::isdigit(input_.peek())) parsed_num += static_cast<char>(input_.get());\<close>
\<close>

function ReadNumber_loop :: "istream \<Rightarrow> string \<Rightarrow> string \<times> istream" where
  "ReadNumber_loop s parsed_num =
     (case peek s of
        (Some c, s1) \<Rightarrow>
          if isdigit c
          then (case get s1 of (r, s2) \<Rightarrow> ReadNumber_loop s2 (parsed_num @ [to_char r]))
          else (parsed_num, s1)
      | (None, s1) \<Rightarrow> (parsed_num, s1))"
  by pat_completeness auto
termination
  by (relation "measure (\<lambda>(s, parsed_num). length (remaining s))")
     (auto simp: peek_def get_def split: if_splits list.splits)

text \<open>
  \<^verbatim>\<open>std::stoi\<close> on a string of decimal digits: \<^verbatim>\<open>std::invalid_argument\<close> when there is
  no digit, \<^verbatim>\<open>std::out_of_range\<close> when the value exceeds \<^verbatim>\<open>INT_MAX\<close>.
\<close>

definition digit_value :: "char \<Rightarrow> nat" where
  "digit_value c = of_char c - of_char CHR ''0''"

definition decimal_value :: "string \<Rightarrow> nat" where
  "decimal_value str = foldl (\<lambda>acc c. 10 * acc + digit_value c) 0 str"

definition stoi :: "string \<Rightarrow> cint lexed" where
  "stoi str =
     (if str = [] then Throws invalid_argument
      else if decimal_value str > 2147483647 then Throws out_of_range
      else Lexed (word_of_nat (decimal_value str)))"

definition ReadNumber :: "LineOfCode \<Rightarrow> istream \<Rightarrow> (LineOfCode \<times> istream) lexed" where
  "ReadNumber line s =
     (case ReadNumber_loop s [] of
        (parsed_num, s1) \<Rightarrow>
          (case stoi parsed_num of
             Lexed v \<Rightarrow> Lexed (emplace_back (Number_tok v) line, s1)
           | Throws e \<Rightarrow> Throws e
           | Hangs \<Rightarrow> Hangs
           | Aborts \<Rightarrow> Aborts))"

text \<open>The escape sequences of \<^verbatim>\<open>ReadString\<close>: \<^verbatim>\<open>\n \t \r \" \' \\\<close>.\<close>

definition escape :: "char \<Rightarrow> char option" where
  "escape escaped_char =
     (if escaped_char = CHR ''n'' then Some (CHR 0x0A)
      else if escaped_char = CHR ''t'' then Some (CHR 0x09)
      else if escaped_char = CHR ''r'' then Some (CHR 0x0D)
      else if escaped_char = CHR 0x22 then Some (CHR 0x22)
      else if escaped_char = CHR 0x27 then Some (CHR 0x27)
      else if escaped_char = CHR 0x5C then Some (CHR 0x5C)
      else None)"

function ReadString_loop :: "char \<Rightarrow> istream \<Rightarrow> string \<Rightarrow> (string \<times> istream) lexed" where
  "ReadString_loop quote_type it str =
     (case sgetc it of
        None \<Rightarrow> Throws (LexerError ''String parsing error'')
      | Some ch \<Rightarrow>
          if ch = quote_type then Lexed (str, sbumpc it)
          else if ch = CHR 0x5C
          then (case sgetc (sbumpc it) of
                  None \<Rightarrow> Throws (LexerError ''String parsing error'')
                | Some escaped_char \<Rightarrow>
                    (case escape escaped_char of
                       Some c \<Rightarrow> ReadString_loop quote_type (sbumpc (sbumpc it)) (str @ [c])
                     | None \<Rightarrow>
                         Throws (LexerError (''Unrecognized escape sequence '' @ [CHR 0x5C, escaped_char]))))
          else if ch = CHR 0x0A \<or> ch = CHR 0x0D
          then Throws (LexerError ''Unexpected end of line'')
          else ReadString_loop quote_type (sbumpc it) (str @ [ch]))"
  by pat_completeness auto
termination
  by (relation "measure (\<lambda>(quote_type, it, str). length (remaining it))")
     (auto simp: sgetc_def sbumpc_def split: list.splits)

definition ReadString :: "LineOfCode \<Rightarrow> istream \<Rightarrow> (LineOfCode \<times> istream) lexed" where
  "ReadString line s =
     (case get s of
        (r, s1) \<Rightarrow>
          (case ReadString_loop (to_char r) s1 [] of
             Lexed (str, s2) \<Rightarrow> Lexed (emplace_back (String_tok str) line, s2)
           | Throws e \<Rightarrow> Throws e
           | Hangs \<Rightarrow> Hangs
           | Aborts \<Rightarrow> Aborts))"

text \<open>
  \<^verbatim>\<open>for (char ch = input_.get(); (isalpha(ch) || ch == '_' || isdigit(ch)); ch = input_.get())\<close>
\<close>

function ReadIdentifier_loop :: "istream \<Rightarrow> string \<Rightarrow> string \<times> istream" where
  "ReadIdentifier_loop s parsed_ident =
     (case get s of
        (Some ch, s1) \<Rightarrow>
          if isalpha ch \<or> ch = CHR ''_'' \<or> isdigit ch
          then ReadIdentifier_loop s1 (parsed_ident @ [ch])
          else (parsed_ident, s1)
      | (None, s1) \<Rightarrow> (parsed_ident, s1))"
  by pat_completeness auto
termination
  by (relation "measure (\<lambda>(s, parsed_ident). length (remaining s))")
     (auto simp: get_def split: if_splits list.splits)

definition keyword_or_Id :: "string \<Rightarrow> token" where
  "keyword_or_Id parsed_ident =
     (if parsed_ident = ''class'' then Class_tok
      else if parsed_ident = ''return'' then Return_tok
      else if parsed_ident = ''if'' then If_tok
      else if parsed_ident = ''else'' then Else_tok
      else if parsed_ident = ''def'' then Def_tok
      else if parsed_ident = ''print'' then Print_tok
      else if parsed_ident = ''and'' then And_tok
      else if parsed_ident = ''or'' then Or_tok
      else if parsed_ident = ''not'' then Not_tok
      else if parsed_ident = ''None'' then None_tok
      else if parsed_ident = ''True'' then True_tok
      else if parsed_ident = ''False'' then False_tok
      else Id_tok parsed_ident)"

definition ReadIdentifier :: "LineOfCode \<Rightarrow> istream \<Rightarrow> LineOfCode \<times> istream" where
  "ReadIdentifier line s =
     (case ReadIdentifier_loop s [] of
        (parsed_ident, s1) \<Rightarrow> (emplace_back (keyword_or_Id parsed_ident) line, unget s1))"

definition ReadCompSymb :: "char \<Rightarrow> LineOfCode \<Rightarrow> istream \<Rightarrow> LineOfCode \<times> istream" where
  "ReadCompSymb c line s =
     ((if c = CHR ''!'' then emplace_back NotEq_tok line
       else if c = CHR ''='' then emplace_back Eq_tok line
       else if c = CHR ''<'' then emplace_back LessOrEq_tok line
       else if c = CHR ''>'' then emplace_back GreaterOrEq_tok line
       else line),
      snd (get s))"


text \<open>
  One round of the \<^verbatim>\<open>do\<close> loop of \<^verbatim>\<open>ReadLine\<close>, after \<^verbatim>\<open>ch = input_.peek()\<close>.
\<close>

definition ReadLine_step :: "char \<Rightarrow> LineOfCode \<Rightarrow> istream \<Rightarrow> (LineOfCode \<times> istream) lexed" where
  "ReadLine_step ch line s =
     (if ch = CHR '' '' then Lexed (line, snd (ProcessSpaces s))
      else if ch = CHR ''#''
      then (case ProcessComment s of
              Lexed s1 \<Rightarrow> Lexed (line, s1)
            | Throws e \<Rightarrow> Throws e
            | Hangs \<Rightarrow> Hangs
            | Aborts \<Rightarrow> Aborts)
      else if is_EOF ch
      then Lexed
             (emplace_back Eof_tok
                (if \<not> IsEmpty line \<and> last (line_tokens line) \<noteq> Newline_tok
                 then emplace_back Newline_tok line
                 else line),
              s)
      else if ch = CHR 0x22 \<or> ch = CHR 0x27 then ReadString line s
      else if isdigit ch then ReadNumber line s
      else if isalpha ch \<or> ch = CHR ''_'' then Lexed (ReadIdentifier line s)
      else (case get s of
              (r, s1) \<Rightarrow>
                if to_char r = CHR ''!'' \<or> to_char r = CHR ''='' \<or> to_char r = CHR ''<'' \<or> to_char r = CHR ''>''
                then (case peek s1 of
                        (p, s2) \<Rightarrow>
                          if p = Some CHR ''='' then Lexed (ReadCompSymb (to_char r) line s2)
                          else Lexed (emplace_back (Char_tok (to_char r)) line, s2))
                else if to_char r = CHR 0x0A then Lexed (emplace_back Newline_tok line, s1)
                else Lexed (emplace_back (Char_tok (to_char r)) line, s1)))"

function ReadLine_loop :: "LineOfCode \<Rightarrow> istream \<Rightarrow> (LineOfCode \<times> istream) lexed" where
  "ReadLine_loop line s =
     (case peek s of
        (r, s1) \<Rightarrow>
          (case ReadLine_step (to_char r) line s1 of
             Lexed (line1, s2) \<Rightarrow>
               if to_char r = CHR 0x0A \<or> is_EOF (to_char r) then Lexed (line1, s2)
               else ReadLine_loop line1 s2
           | Throws e \<Rightarrow> Throws e
           | Hangs \<Rightarrow> Hangs
           | Aborts \<Rightarrow> Aborts))"
  by pat_completeness auto

definition ReadLine :: "LineOfCode \<Rightarrow> istream \<Rightarrow> (LineOfCode \<times> istream) lexed" where
  "ReadLine line s =
     (case ProcessSpaces (SkipNewLinesOnly s) of
        (count, s1) \<Rightarrow> ReadLine_loop (line\<lparr>starting_spaces := count\<rparr>) s1)"

text \<open>The constructor \<^verbatim>\<open>LineOfCode(istream& input)\<close>.\<close>

definition LineOfCode_ctor :: "istream \<Rightarrow> (LineOfCode \<times> istream) lexed" where
  "LineOfCode_ctor s = ReadLine \<lparr>starting_spaces = 0, line_tokens = []\<rparr> s"

subsection \<open>Lexer\<close>

record Lexer =
  tokens :: "token list"
  input :: istream
  cur_token :: nat
  cur_indent :: nat

text \<open>\<^verbatim>\<open>assert(!tokens_.empty() && cur_token_ < tokens_.size()); return tokens_[cur_token_];\<close>\<close>

definition CurrentToken :: "Lexer \<Rightarrow> token lexed" where
  "CurrentToken lx =
     (if tokens lx \<noteq> [] \<and> cur_token lx < length (tokens lx) then Lexed (tokens lx ! cur_token lx)
      else Aborts)"

definition return_CurrentToken :: "Lexer \<Rightarrow> (token \<times> Lexer) lexed" where
  "return_CurrentToken lx =
     (case CurrentToken lx of
        Lexed t \<Rightarrow> Lexed (t, lx)
      | Throws e \<Rightarrow> Throws e
      | Hangs \<Rightarrow> Hangs
      | Aborts \<Rightarrow> Aborts)"

text \<open>The two branches of \<^verbatim>\<open>ParseLine\<close> that append to \<^verbatim>\<open>tokens_\<close>.\<close>

definition append_line :: "LineOfCode \<Rightarrow> Lexer \<Rightarrow> Lexer" where
  "append_line line lx =
     (let lx1 = lx\<lparr>cur_token := length (tokens lx)\<rparr>;
          lx2 =
            (if starting_spaces line div 2 > cur_indent lx1
             then lx1\<lparr>cur_indent := starting_spaces line div 2,
                      tokens := tokens lx1 @ replicate (starting_spaces line div 2 - cur_indent lx1) Indent_tok\<rparr>
             else if starting_spaces line div 2 < cur_indent lx1
             then lx1\<lparr>cur_indent := starting_spaces line div 2,
                      tokens := tokens lx1 @ replicate (cur_indent lx1 - starting_spaces line div 2) Dedent_tok\<rparr>
             else lx1)
      in lx2\<lparr>tokens := tokens lx2 @ line_tokens line\<rparr>)"

definition append_Eof :: "Lexer \<Rightarrow> Lexer" where
  "append_Eof lx =
     (let lx1 = lx\<lparr>cur_token := length (tokens lx)\<rparr>;
          lx2 =
            (if cur_indent lx1 > 0
             then lx1\<lparr>tokens := tokens lx1 @ replicate (cur_indent lx1) Dedent_tok\<rparr>
             else lx1)
      in lx2\<lparr>tokens := tokens lx2 @ [Eof_tok]\<rparr>)"

function ParseLine :: "Lexer \<Rightarrow> (token \<times> Lexer) lexed" where
  "ParseLine lx =
     (case LineOfCode_ctor (input lx) of
        Lexed (line, s) \<Rightarrow>
          if starting_spaces line mod 2 \<noteq> 0 then Throws (LexerError ''Incorrect indent.'')
          else if \<not> IsAllEof line \<and> \<not> IsEmpty line
          then return_CurrentToken (append_line line (lx\<lparr>input := s\<rparr>))
          else if IsAllEof line
          then return_CurrentToken (append_Eof (lx\<lparr>input := s\<rparr>))
          else ParseLine (lx\<lparr>input := s\<rparr>)
      | Throws e \<Rightarrow> Throws e
      | Hangs \<Rightarrow> Hangs
      | Aborts \<Rightarrow> Aborts)"
  by pat_completeness auto

text \<open>The constructor \<^verbatim>\<open>Lexer(std::istream& input)\<close>.\<close>

definition Lexer_ctor :: "istream \<Rightarrow> (token \<times> Lexer) lexed" where
  "Lexer_ctor s = ParseLine \<lparr>tokens = [], input = s, cur_token = 0, cur_indent = 0\<rparr>"

text \<open>
  \<^verbatim>\<open>if (cur_token_ == tokens_.size() - 1) return ParseLine(); return tokens_[++cur_token_];\<close>
  The subtraction is on \<^verbatim>\<open>size_t\<close>; with no token it wraps, and the read after it is out
  of bounds.
\<close>

definition NextToken :: "Lexer \<Rightarrow> (token \<times> Lexer) lexed" where
  "NextToken lx =
     (if tokens lx \<noteq> [] \<and> cur_token lx = length (tokens lx) - 1 then ParseLine lx
      else if Suc (cur_token lx) < length (tokens lx)
      then Lexed (tokens lx ! Suc (cur_token lx), lx\<lparr>cur_token := Suc (cur_token lx)\<rparr>)
      else Aborts)"

text \<open>A client that calls \<^verbatim>\<open>NextToken\<close> a number of times.\<close>

fun NextToken_times :: "nat \<Rightarrow> Lexer \<Rightarrow> (token \<times> Lexer) lexed" where
  "NextToken_times 0 lx = return_CurrentToken lx"
| "NextToken_times (Suc n) lx =
     (case NextToken lx of
        Lexed (t, lx1) \<Rightarrow> NextToken_times n lx1
      | r \<Rightarrow> r)"


text \<open>What a client has seen after the constructor and \<open>n\<close> calls: the current token and the buffer.\<close>

definition lex_prefix :: "nat \<Rightarrow> string \<Rightarrow> (token \<times> token list) lexed" where
  "lex_prefix n src =
     (case Lexer_ctor (istringstream src) of
        Lexed (t, lx) \<Rightarrow>
          (case NextToken_times n lx of
             Lexed (t1, lx1) \<Rightarrow> Lexed (t1, tokens lx1)
           | Throws e \<Rightarrow> Throws e
           | Hangs \<Rightarrow> Hangs
           | Aborts \<Rightarrow> Aborts)
      | Throws e \<Rightarrow> Throws e
      | Hangs \<Rightarrow> Hangs
      | Aborts \<Rightarrow> Aborts)"

text \<open>The first line of a source, as \<^verbatim>\<open>ParseLine\<close> reads it.\<close>

definition first_line :: "string \<Rightarrow> LineOfCode lexed" where
  "first_line src =
     (case LineOfCode_ctor (istringstream src) of
        Lexed (line, s) \<Rightarrow> Lexed line
      | Throws e \<Rightarrow> Throws e
      | Hangs \<Rightarrow> Hangs
      | Aborts \<Rightarrow> Aborts)"

section \<open>Example programs\<close>

definition empty_context :: Context where
  "empty_context = \<lparr>output_stream = [], heap = [], instance_id = 0\<rparr>"

text \<open>\<^verbatim>\<open>VariableValue(const std::string& var_name)\<close>\<close>

definition var :: "string \<Rightarrow> statement" where
  "var x = Variable (VariableValue x [])"

text \<open>\<^verbatim>\<open>a = 7\<close>, \<^verbatim>\<open>b = -2\<close>, \<^verbatim>\<open>z = 0\<close>, \<^verbatim>\<open>s = "x"\<close>, \<^verbatim>\<open>m = INT_MIN\<close>, \<^verbatim>\<open>n = -1\<close>, \<^verbatim>\<open>e = None\<close>\<close>

definition numbers_closure :: closure where
  "numbers_closure =
     [''a'' \<mapsto> Some (Number 7), ''b'' \<mapsto> Some (Number (- 2)), ''z'' \<mapsto> Some (Number 0),
      ''s'' \<mapsto> Some (String ''x''), ''m'' \<mapsto> Some (Number (- 2147483648)),
      ''n'' \<mapsto> Some (Number (- 1)), ''e'' \<mapsto> None]"


text \<open>
  A class whose methods return one of their arguments:
  \<^verbatim>\<open>
  class C:
    def who(self): return self        # the formal parameter list is ["self"]
    def same(x): return x
    def __eq__(other): return other
    def __lt__(other): return other
  \<close>
  and a context holding one instance of it, at address 0.
\<close>

definition return_var :: "string \<Rightarrow> statement" where
  "return_var x = MethodBody (Return (var x))"

definition example_class :: class_obj where
  "example_class =
     MkClass ''C''
       [Method ''who'' [''self''] (return_var ''self''),
        Method ''same'' [''x''] (return_var ''x''),
        Method ''__eq__'' [''other''] (return_var ''other''),
        Method ''__lt__'' [''other''] (return_var ''other'')]
       None"

definition example_instance :: class_inst where
  "example_instance = \<lparr>cls = example_class, Fields = Map.empty\<rparr>"

definition instance_context :: Context where
  "instance_context = \<lparr>output_stream = [], heap = [example_instance], instance_id = 0\<rparr>"

text \<open>\<^verbatim>\<open>c\<close> names the instance, \<^verbatim>\<open>a = 7\<close>, \<^verbatim>\<open>t = True\<close>, \<^verbatim>\<open>e = None\<close>\<close>

definition instance_closure :: closure where
  "instance_closure =
     [''c'' \<mapsto> Some (ClassInstance 0), ''a'' \<mapsto> Some (Number 7), ''t'' \<mapsto> Some (Bool True),
      ''e'' \<mapsto> None]"

text \<open>
  A class whose method returns a new instance of a second class:
  \<^verbatim>\<open>
  class R:
    def run(): return self
  class M:
    def make(): return R()
  \<close>
  a context holding one instance of \<^verbatim>\<open>M\<close>, at address 0, a closure that names it \<^verbatim>\<open>m\<close>,
  and the context after one call of \<^verbatim>\<open>make\<close>: the new instance is at address 1.
\<close>

definition runner_class :: class_obj where
  "runner_class = MkClass ''R'' [Method ''run'' [] (return_var ''self'')] None"

definition maker_class :: class_obj where
  "maker_class =
     MkClass ''M'' [Method ''make'' [] (MethodBody (Return (NewInstance runner_class [])))] None"

definition maker_context :: Context where
  "maker_context =
     \<lparr>output_stream = [], heap = [\<lparr>cls = maker_class, Fields = Map.empty\<rparr>], instance_id = 0\<rparr>"

definition maker_closure :: closure where
  "maker_closure = [''m'' \<mapsto> Some (ClassInstance 0)]"

definition made_context :: Context where
  "made_context =
     \<lparr>output_stream = [],
      heap = [\<lparr>cls = maker_class, Fields = Map.empty\<rparr>, \<lparr>cls = runner_class, Fields = Map.empty\<rparr>],
      instance_id = 1\<rparr>"

text \<open>\<^verbatim>\<open>m.make()\<close>\<close>

definition make_call :: statement where
  "make_call = MethodCall (var ''m'') ''make'' []"

subsection \<open>Example sources\<close>

text \<open>
  \<^verbatim>\<open>if x:\<close> and an indented \<^verbatim>\<open>y\<close> on the next line, the last line without and with its
  newline.
\<close>

definition source_unterminated :: string where
  "source_unterminated = ''if x:'' @ [CHR 0x0A] @ ''  y''"

definition source_terminated :: string where
  "source_terminated = ''if x:'' @ [CHR 0x0A] @ ''  y'' @ [CHR 0x0A]"

text \<open>
  A line \<^verbatim>\<open>x\<close>, alone, after one space, after a line that is one space, after a line
  that is one space and a comment, and after a line that is two spaces and a comment.
\<close>

definition source_x :: string where
  "source_x = ''x'' @ [CHR 0x0A]"

definition source_odd_x :: string where
  "source_odd_x = '' x'' @ [CHR 0x0A]"

definition source_odd_blank :: string where
  "source_odd_blank = '' '' @ [CHR 0x0A] @ source_x"

definition source_odd_comment :: string where
  "source_odd_comment = '' # c'' @ [CHR 0x0A] @ source_x"

definition source_even_comment :: string where
  "source_even_comment = ''  # c'' @ [CHR 0x0A] @ source_x"

section \<open>Properties of the evaluator\<close>

declare Execute.simps [simp del]

lemma Execute_numeral:
  "Execute (numeral k) stmt closure ctx =
     Execute_node (Execute (pred_numeral k)) (Object_Print (pred_numeral k)) stmt closure ctx"
  by (simp add: numeral_eq_Suc Execute.simps)

lemma Execute_1:
  "Execute 1 stmt closure ctx = Execute_node (Execute 0) (Object_Print 0) stmt closure ctx"
  unfolding One_nat_def by (simp add: Execute.simps)

lemmas Execute_fuel = Execute.simps Execute_numeral Execute_1

lemma Execute_Suc:
  "Execute (Suc n) (Assignment name rv) closure ctx = Assignment_Execute (Execute n) name rv closure ctx"
  "Execute (Suc n) (Variable v) closure ctx = VariableValue_Execute v closure ctx"
  "Execute (Suc n) (Print args) closure ctx = Print_Execute (Execute n) (Object_Print n) args closure ctx"
  "Execute (Suc n) (MethodCall object method_nm args) closure ctx =
     MethodCall_Execute (Execute n) object method_nm args closure ctx"
  "Execute (Suc n) (Stringify arg) closure ctx = Stringify_Execute (Execute n) (Object_Print n) arg closure ctx"
  "Execute (Suc n) (Add lhs rhs) closure ctx = Add_Execute (Execute n) lhs rhs closure ctx"
  "Execute (Suc n) (Sub lhs rhs) closure ctx = Sub_Execute (Execute n) lhs rhs closure ctx"
  "Execute (Suc n) (Mult lhs rhs) closure ctx = Mult_Execute (Execute n) lhs rhs closure ctx"
  "Execute (Suc n) (Div lhs rhs) closure ctx = Div_Execute (Execute n) lhs rhs closure ctx"
  "Execute (Suc n) (Compound args) closure ctx = Compound_Execute (Execute n) args closure ctx"
  "Execute (Suc n) (Return s) closure ctx = Return_Execute (Execute n) s closure ctx"
  "Execute (Suc n) (ClassDefinition c) closure ctx = ClassDefinition_Execute c closure ctx"
  "Execute (Suc n) (FieldAssignment obj field_name rv) closure ctx =
     FieldAssignment_Execute (Execute n) obj field_name rv closure ctx"
  "Execute (Suc n) (IfElse condition if_body else_body) closure ctx =
     IfElse_Execute (Execute n) condition if_body else_body closure ctx"
  "Execute (Suc n) (Or lhs rhs) closure ctx = Or_Execute (Execute n) lhs rhs closure ctx"
  "Execute (Suc n) (And lhs rhs) closure ctx = And_Execute (Execute n) lhs rhs closure ctx"
  "Execute (Suc n) (Not_stmt arg) closure ctx = Not_Execute (Execute n) arg closure ctx"
  "Execute (Suc n) (Comparison cmp lhs rhs) closure ctx = Comparison_Execute (Execute n) cmp lhs rhs closure ctx"
  "Execute (Suc n) (NewInstance k args) closure ctx = NewInstance_Execute (Execute n) k args closure ctx"
  "Execute (Suc n) (MethodBody b) closure ctx = MethodBody_Execute (Execute n) b closure ctx"
  by (simp_all add: Execute.simps Execute_node_def)


lemma Execute_var:
  "x \<noteq> [] \<Longrightarrow> Execute (Suc n) (var x) closure ctx =
     (case closure x of
        Some h \<Rightarrow> Done h (closure, ctx)
      | None \<Rightarrow> Throw (RuntimeError (''Unknown variable '' @ x)) (closure, ctx))"
  by (simp add: Execute.simps var_def Execute_node_def VariableValue_Execute_def split: option.split)

lemma Execute_var_1:
  "x \<noteq> [] \<Longrightarrow> Execute 1 (var x) closure ctx =
     (case closure x of
        Some h \<Rightarrow> Done h (closure, ctx)
      | None \<Rightarrow> Throw (RuntimeError (''Unknown variable '' @ x)) (closure, ctx))"
  unfolding One_nat_def by (rule Execute_var)

lemma numbers_closure_simps:
  "numbers_closure ''a'' = Some (Some (Number 7))"
  "numbers_closure ''b'' = Some (Some (Number (- 2)))"
  "numbers_closure ''z'' = Some (Some (Number 0))"
  "numbers_closure ''s'' = Some (Some (String ''x''))"
  "numbers_closure ''m'' = Some (Some (Number (- 2147483648)))"
  "numbers_closure ''n'' = Some (Some (Number (- 1)))"
  "numbers_closure ''e'' = Some None"
  by (simp_all add: numbers_closure_def)

subsection \<open>Truncating division on \<^verbatim>\<open>int\<close>\<close>







subsection \<open>Div\<close>




subsection \<open>And, Or\<close>





subsection \<open>The example class\<close>

lemma GetMethod_example_class:
  "GetMethod example_class ''who'' = Some (Method ''who'' [''self''] (return_var ''self''))"
  "GetMethod example_class ''same'' = Some (Method ''same'' [''x''] (return_var ''x''))"
  "GetMethod example_class ''__eq__'' = Some (Method ''__eq__'' [''other''] (return_var ''other''))"
  "GetMethod example_class ''__lt__'' = Some (Method ''__lt__'' [''other''] (return_var ''other''))"
  "GetMethod example_class ''none'' = None"
  by (simp_all add: example_class_def methods_map_def)

lemma deref_instance_context:
  "deref instance_context 0 = Some example_instance"
  by (simp add: deref_def instance_context_def)

lemma instance_closure_simps:
  "instance_closure ''c'' = Some (Some (ClassInstance 0))"
  "instance_closure ''a'' = Some (Some (Number 7))"
  "instance_closure ''t'' = Some (Some (Bool True))"
  "instance_closure ''e'' = Some None"
  by (simp_all add: instance_closure_def)

lemma Execute_return_var:
  "x \<noteq> [] \<Longrightarrow> closure x = Some h \<Longrightarrow>
   Execute (Suc (Suc (Suc n))) (return_var x) closure ctx = Done h (closure, ctx)"
  by (simp add: return_var_def Execute_Suc MethodBody_Execute_def Return_Execute_def Execute_var)

lemma cls_example_instance:
  "cls example_instance = example_class"
  by (simp add: example_instance_def)

lemma HasMethod_example_instance:
  "HasMethod example_instance ''same'' (Suc 0)"
  "\<not> HasMethod example_instance ''same'' 0"
  "\<not> HasMethod example_instance ''none'' (Suc 0)"
  "HasMethod example_instance ''who'' (Suc 0)"
  "HasMethod example_instance ''__eq__'' (Suc 0)"
  "HasMethod example_instance ''__lt__'' (Suc 0)"
  by (simp_all add: HasMethod_def cls_example_instance GetMethod_example_class)

lemma Call_example_instance:
  "Call (Execute (Suc (Suc (Suc n)))) 0 ''same'' [h] instance_context = Done h instance_context"
  "Call (Execute (Suc (Suc (Suc n)))) 0 ''who'' [h] instance_context = Done h instance_context"
  "Call (Execute (Suc (Suc (Suc n)))) 0 ''__eq__'' [h] instance_context = Done h instance_context"
  "Call (Execute (Suc (Suc (Suc n)))) 0 ''__lt__'' [h] instance_context = Done h instance_context"
  by (simp_all add: Call_def deref_instance_context HasMethod_example_instance
      cls_example_instance GetMethod_example_class Call_locals_def Execute_return_var)

subsection \<open>MethodCall\<close>

lemma maker_closure_simps:
  "maker_closure ''m'' = Some (Some (ClassInstance 0))"
  by (simp add: maker_closure_def)

lemma kept_alive_maker:
  "kept_alive maker_closure maker_context [] 0"
  "\<not> kept_alive maker_closure made_context [] (Suc 0)"
  "kept_alive (maker_closure(''r'' \<mapsto> Some (ClassInstance (Suc 0)))) made_context [] (Suc 0)"
  by (simp_all add: kept_alive_def maker_closure_def made_context_def ran_def exI [of _ "''r''"])

lemma deref_maker:
  "deref maker_context 0 = Some \<lparr>cls = maker_class, Fields = Map.empty\<rparr>"
  "deref made_context 0 = Some \<lparr>cls = maker_class, Fields = Map.empty\<rparr>"
  "deref made_context (Suc 0) = Some \<lparr>cls = runner_class, Fields = Map.empty\<rparr>"
  by (simp_all add: deref_def maker_context_def made_context_def)

lemma GetMethod_maker:
  "GetMethod maker_class ''make'' = Some (Method ''make'' [] (MethodBody (Return (NewInstance runner_class []))))"
  "GetMethod runner_class ''run'' = Some (Method ''run'' [] (return_var ''self''))"
  "GetMethod runner_class ''__init__'' = None"
  by (simp_all add: maker_class_def runner_class_def methods_map_def)

lemma HasMethod_maker:
  "HasMethod \<lparr>cls = maker_class, Fields = Map.empty\<rparr> ''make'' 0"
  "HasMethod \<lparr>cls = runner_class, Fields = Map.empty\<rparr> ''run'' 0"
  "\<not> HasMethod \<lparr>cls = runner_class, Fields = Map.empty\<rparr> ''__init__'' 0"
  by (simp_all add: HasMethod_def GetMethod_maker)

lemma to_string_nat_0:
  "to_string_nat 0 = ''0''"
  by code_simp

text \<open>\<^verbatim>\<open>R()\<close> in the locals of a method: the new instance is owned by the entry \<^verbatim>\<open>0_R\<close>.\<close>

lemma NewInstance_runner:
  "Execute (Suc n) (NewInstance runner_class []) locals maker_context =
     Done (Some (ClassInstance 1)) (locals(''0_R'' \<mapsto> Some (ClassInstance 1)), made_context)"
  by (simp add: Execute_Suc NewInstance_Execute_def NewInstanceId_def maker_context_def made_context_def
      HasMethod_maker closure_at_def runner_class_def [THEN arg_cong, of class_name] Let_def
      to_string_nat_0 del: to_string_nat.simps)

lemma Call_make:
  "Call (Execute (Suc (Suc (Suc n)))) 0 ''make'' [] maker_context = Done (Some (ClassInstance 1)) made_context"
  by (simp add: Call_def deref_maker HasMethod_maker GetMethod_maker Execute_Suc(20) Execute_Suc(11)
      MethodBody_Execute_def Return_Execute_def NewInstance_runner)

lemma Execute_make_call:
  "Execute (Suc (Suc (Suc (Suc n)))) make_call maker_closure maker_context =
     Done (Some (ClassInstance 1)) (maker_closure, made_context)"
  by (simp add: make_call_def Execute_Suc(4) MethodCall_Execute_def Execute_var maker_closure_simps
      kept_alive_maker deref_maker HasMethod_maker Call_make in_closure_def)

lemma Call_run:
  "Call (Execute (Suc (Suc (Suc n)))) (Suc 0) ''run'' [] made_context = Done (Some (ClassInstance 1)) made_context"
  by (simp add: Call_def deref_maker HasMethod_maker GetMethod_maker Call_locals_def Execute_return_var)

text \<open>
  Claim C6 asks that \<open>MethodCall\<close> dispatch the method whenever the receiver is a class
  instance that has it. The code does not for a receiver that only the holder returned by
  the receiver expression owns. In \<^verbatim>\<open>m.make().run()\<close> the call \<^verbatim>\<open>m.make()\<close> returns a new
  instance of \<^verbatim>\<open>R\<close>, which has the method \<^verbatim>\<open>run\<close> without parameters. The instance was owned
  by an entry of the locals of \<^verbatim>\<open>make\<close>, which are gone, and is now owned by the returned
  holder alone: no entry of the closure and no field holds it. \<^verbatim>\<open>MethodCall::Execute\<close> takes
  a plain pointer from that holder and lets the holder die, so the instance is destroyed
  before \<^verbatim>\<open>HasMethod\<close> is called on it: undefined behaviour, neither a dispatch nor an empty
  holder. With the same receiver first assigned to a variable, the call is dispatched.
  \<^verbatim>\<open>Add::Execute\<close> and \<^verbatim>\<open>FieldAssignment::Execute\<close> keep the holder of their receiver in a
  local variable for as long as they use the pointer.
\<close>

theorem C6_MethodCall_receiver_destroyed:
  "Execute 5 make_call maker_closure maker_context =
     Done (Some (ClassInstance 1)) (maker_closure, made_context)
   \<and> deref made_context 1 = Some \<lparr>cls = runner_class, Fields = Map.empty\<rparr>
   \<and> HasMethod \<lparr>cls = runner_class, Fields = Map.empty\<rparr> ''run'' 0
   \<and> Execute 6 (MethodCall make_call ''run'' []) maker_closure maker_context = Undefined
   \<and> Execute 6 (MethodCall (Assignment ''r'' make_call) ''run'' []) maker_closure maker_context =
       Done (Some (ClassInstance 1)) (maker_closure(''r'' \<mapsto> Some (ClassInstance 1)), made_context)"
proof -
  have five: "5 = Suc (Suc (Suc (Suc (Suc 0))))" and six: "6 = Suc (Suc (Suc (Suc (Suc (Suc 0)))))"
    by simp_all
  show ?thesis
    unfolding five six
    by (simp add: Execute_Suc(1,4) MethodCall_Execute_def Assignment_Execute_def Execute_make_call
        kept_alive_maker deref_maker HasMethod_maker Call_run in_closure_def)
qed

subsection \<open>ClassInstance::Call\<close>

lemma bind_params_notin:
  "x \<notin> set ps \<Longrightarrow> bind_params ps as locals x = locals x"
  by (induction ps as locals rule: bind_params.induct) auto

lemma bind_params_last:
  "length ps = length as \<Longrightarrow> i < length ps \<Longrightarrow> ps ! i = x \<Longrightarrow>
   (\<forall>j. i < j \<and> j < length ps \<longrightarrow> ps ! j \<noteq> x) \<Longrightarrow>
   bind_params ps as locals x = Some (as ! i)"
proof (induction ps as locals arbitrary: i rule: bind_params.induct)
  case (1 p ps a as locals)
  show ?case
  proof (cases i)
    case 0
    then have "x \<notin> set ps"
      using "1.prems" by (auto simp: in_set_conv_nth) 
    then show ?thesis
      using 0 "1.prems" by (simp add: bind_params_notin)
  next
    case (Suc k)
    have "\<forall>j. k < j \<and> j < length ps \<longrightarrow> ps ! j \<noteq> x"
    proof (intro allI impI)
      fix j
      assume "k < j \<and> j < length ps"
      then have "i < Suc j \<and> Suc j < length (p # ps)"
        using Suc by simp
      then have "(p # ps) ! Suc j \<noteq> x"
        using "1.prems"(4) by blast
      then show "ps ! j \<noteq> x"
        by simp
    qed
    then show ?thesis
      using Suc "1.prems"(1,2,3) "1.IH" [of k] by (simp add: fun_upd_def)
  qed
qed simp_all

text \<open>
  Claim C9. \<open>Call\<close> runs the body of the method in the closure \<open>Call_locals\<close>, built by
  binding \<^verbatim>\<open>self\<close> to the instance and then each formal parameter, in order, to its actual
  argument. If no formal parameter is named \<^verbatim>\<open>self\<close>, the body sees the instance under
  that name; if one is, the body sees the actual argument of the last such parameter
  instead, and not the instance.
\<close>

theorem C9_Call_self_parameter:
  assumes "deref ctx this = Some inst"
    and "GetMethod (cls inst) method_nm = Some p_method"
    and "length (formal_params p_method) = length actual_args"
  shows "Call (Execute n) this method_nm actual_args ctx =
           (case Execute n (body p_method) (Call_locals this p_method actual_args) ctx of
              Done v (locals, ctx') \<Rightarrow> Done v ctx'
            | Throw e (locals, ctx') \<Rightarrow> Throw e ctx'
            | Undefined \<Rightarrow> Undefined
            | OutOfFuel \<Rightarrow> OutOfFuel)
       \<and> (''self'' \<notin> set (formal_params p_method) \<longrightarrow>
            Call_locals this p_method actual_args ''self'' = Some (Some (ClassInstance this)))
       \<and> (\<forall>i. i < length (formal_params p_method) \<and> formal_params p_method ! i = ''self''
              \<and> (\<forall>j. i < j \<and> j < length (formal_params p_method) \<longrightarrow> formal_params p_method ! j \<noteq> ''self'') \<longrightarrow>
            Call_locals this p_method actual_args ''self'' = Some (actual_args ! i))"
  using assms
  by (auto simp: Call_def HasMethod_def Call_locals_def bind_params_notin bind_params_last)

theorem C9_Call_self_parameter_witness:
  "Call (Execute 3) 0 ''who'' [Some (Number 7)] instance_context = Done (Some (Number 7)) instance_context
   \<and> Call_locals 0 (Method ''who'' [''self''] (return_var ''self'')) [Some (Number 7)] ''self'' = Some (Some (Number 7))
   \<and> Call_locals 0 (Method ''same'' [''x''] (return_var ''x'')) [Some (Number 7)] ''self'' = Some (Some (ClassInstance 0))"
proof -
  have three: "Suc (Suc (Suc 0)) = 3"
    by simp
  note cls = cls_example_instance
  show ?thesis
    using
      C9_Call_self_parameter [OF deref_instance_context, unfolded cls, OF GetMethod_example_class(1),
        of "[Some (Number 7)]" "Suc (Suc (Suc 0))"]
      C9_Call_self_parameter [OF deref_instance_context, unfolded cls, OF GetMethod_example_class(2),
        of "[Some (Number 7)]" "Suc (Suc (Suc 0))"]
    unfolding three
    by (simp add: Execute_return_var [of _ _ _ 0, unfolded three] Call_locals_def)
qed

subsection \<open>Equal and Less\<close>

text \<open>
  The branches of \<open>Equal\<close>, in the order of the code, where it returns or throws.
\<close>

lemma Equal_cases:
  "(\<forall>x y. lhs = Some (Bool x) \<and> rhs = Some (Bool y) \<longrightarrow>
       Equal (Execute n) lhs rhs ctx = Done (x = y) ctx)
   \<and> (\<forall>x y. lhs = Some (Number x) \<and> rhs = Some (Number y) \<longrightarrow>
       Equal (Execute n) lhs rhs ctx = Done (x = y) ctx)
   \<and> (\<forall>x y. lhs = Some (String x) \<and> rhs = Some (String y) \<longrightarrow>
       Equal (Execute n) lhs rhs ctx = Done (x = y) ctx)
   \<and> (\<forall>a inst b ctx'. lhs = Some (ClassInstance a) \<and> deref ctx a = Some inst
         \<and> HasMethod inst ''__eq__'' 1
         \<and> Call (Execute n) a ''__eq__'' [rhs] ctx = Done (Some (Bool b)) ctx' \<longrightarrow>
       Equal (Execute n) lhs rhs ctx = Done b ctx')
   \<and> (lhs = None \<and> rhs = None \<longrightarrow> Equal (Execute n) lhs rhs ctx = Done True ctx)
   \<and> ((TryAs_Bool lhs = None \<or> TryAs_Bool rhs = None)
        \<and> (TryAs_Number lhs = None \<or> TryAs_Number rhs = None)
        \<and> (TryAs_String lhs = None \<or> TryAs_String rhs = None)
        \<and> (\<forall>a. lhs = Some (ClassInstance a) \<longrightarrow>
              (\<exists>inst. deref ctx a = Some inst \<and> \<not> HasMethod inst ''__eq__'' 1))
        \<and> (lhs \<noteq> None \<or> rhs \<noteq> None) \<longrightarrow>
       Equal (Execute n) lhs rhs ctx = Throw (RuntimeError ''Cannot compare objects for equality'') ctx)"
  by (cases lhs rule: TryAs_ClassInstance.cases)
     (auto simp: Equal_def unwrap_Bool_def)

text \<open>
  Claim C4 asks that \<open>Equal\<close>, for all holders, either return a value (the comparison of
  the payloads, the \<open>Bool\<close> result of \<^verbatim>\<open>__eq__\<close>, true for two empty holders) or fail with
  a runtime error. The code does neither when the left holder is an instance with a method
  \<^verbatim>\<open>__eq__\<close> of one parameter whose call returns a number or the empty holder:
  \<^verbatim>\<open>Call(...).TryAs<Bool>()\<close> is null then and \<^verbatim>\<open>->GetValue()\<close> dereferences it. The method
  \<^verbatim>\<open>__eq__\<close> of the example class returns its argument. The first branch of \<open>Equal\<close> tests
  \<^verbatim>\<open>TryAs<Bool>()\<close> before it reads the value, and a pair of holders that no branch takes
  gets the runtime error.
\<close>

theorem C4_Equal_result_not_Bool:
  "deref instance_context 0 = Some example_instance
   \<and> HasMethod example_instance ''__eq__'' 1
   \<and> Call (Execute 3) 0 ''__eq__'' [Some (Number 7)] instance_context = Done (Some (Number 7)) instance_context
   \<and> Equal (Execute 3) (Some (ClassInstance 0)) (Some (Number 7)) instance_context = Undefined
   \<and> Call (Execute 3) 0 ''__eq__'' [None] instance_context = Done None instance_context
   \<and> Equal (Execute 3) (Some (ClassInstance 0)) None instance_context = Undefined
   \<and> Equal (Execute 3) (Some (ClassInstance 0)) (Some (Bool True)) instance_context = Done True instance_context
   \<and> Equal (Execute 3) (Some (Number 7)) (Some (String ''ab'')) instance_context =
       Throw (RuntimeError ''Cannot compare objects for equality'') instance_context"
proof -
  have three: "Suc (Suc (Suc 0)) = 3"
    by simp
  have eq: "Call (Execute 3) 0 ''__eq__'' [h] instance_context = Done h instance_context" for h
    using Call_example_instance(3) [of 0 h] unfolding three .
  show ?thesis
    by (simp add: Equal_def unwrap_Bool_def deref_instance_context HasMethod_example_instance eq)
qed

text \<open>
  Claim C10. When \<open>Equal\<close> (or \<open>Less\<close>) finds a class instance on the left with a method
  \<^verbatim>\<open>__eq__\<close> (or \<^verbatim>\<open>__lt__\<close>) of one parameter, it calls the method and unwraps the
  result with an unchecked downcast to \<open>Bool\<close>. It returns the \<open>Bool\<close> when the method
  returned one; when the method returned an empty holder or a value of another type, the
  downcast is null and its dereference is undefined behaviour: the error branch
  \<^verbatim>\<open>Cannot compare ...\<close> is not reached.
\<close>

theorem C10_unchecked_Bool_downcast:
  assumes "lhs = Some (ClassInstance a)"
    and "deref ctx a = Some inst"
  shows "(\<forall>h ctx'. HasMethod inst ''__eq__'' 1 \<and> Call (Execute n) a ''__eq__'' [rhs] ctx = Done h ctx' \<longrightarrow>
            (\<forall>b. h = Some (Bool b) \<longrightarrow> Equal (Execute n) lhs rhs ctx = Done b ctx')
          \<and> (TryAs_Bool h = None \<longrightarrow> Equal (Execute n) lhs rhs ctx = Undefined))
       \<and> (\<forall>h ctx'. HasMethod inst ''__lt__'' 1 \<and> Call (Execute n) a ''__lt__'' [rhs] ctx = Done h ctx' \<longrightarrow>
            (\<forall>b. h = Some (Bool b) \<longrightarrow> Less (Execute n) lhs rhs ctx = Done b ctx')
          \<and> (TryAs_Bool h = None \<longrightarrow> Less (Execute n) lhs rhs ctx = Undefined))"
  using assms by (auto simp: Equal_def Less_def unwrap_Bool_def)

theorem C10_unchecked_Bool_downcast_witness:
  "Equal (Execute 3) (Some (ClassInstance 0)) (Some (Bool False)) instance_context = Done False instance_context
   \<and> Equal (Execute 3) (Some (ClassInstance 0)) (Some (Number 7)) instance_context = Undefined
   \<and> Equal (Execute 3) (Some (ClassInstance 0)) None instance_context = Undefined
   \<and> Less (Execute 3) (Some (ClassInstance 0)) (Some (Bool True)) instance_context = Done True instance_context
   \<and> Less (Execute 3) (Some (ClassInstance 0)) (Some (String ''ab'')) instance_context = Undefined
   \<and> Less (Execute 3) (Some (ClassInstance 0)) None instance_context = Undefined"
proof -
  have three: "Suc (Suc (Suc 0)) = 3"
    by simp
  have eq: "Call (Execute 3) 0 ''__eq__'' [h] instance_context = Done h instance_context"
    and lt: "Call (Execute 3) 0 ''__lt__'' [h] instance_context = Done h instance_context" for h
    using Call_example_instance(3,4) [of 0 h] unfolding three by simp_all
  have has: "HasMethod example_instance ''__eq__'' 1" "HasMethod example_instance ''__lt__'' 1"
    using HasMethod_example_instance(5,6) by simp_all
  note c10 = C10_unchecked_Bool_downcast [OF refl deref_instance_context, of 3]
  show ?thesis
    using c10 [of "Some (Bool False)"] c10 [of "Some (Number 7)"] c10 [of None]
      c10 [of "Some (Bool True)"] c10 [of "Some (String ''ab'')"] eq lt has
    by auto
qed

subsection \<open>The derived comparisons\<close>

text \<open>
  Claim C8. Where \<open>Equal\<close> returns \<open>e\<close>, \<open>NotEqual\<close> returns \<open>\<not> e\<close>. Where \<open>Less\<close> returns
  \<open>l\<close>, \<open>GreaterOrEqual\<close> returns \<open>\<not> l\<close>; and where \<open>Equal\<close>, called in the context that
  \<open>Less\<close> left, returns \<open>e\<close>, \<open>Greater\<close> returns \<open>\<not> l \<and> \<not> e\<close> and \<open>LessOrEqual\<close> its
  negation. (\<open>Greater\<close> calls \<open>NotEqual\<close> only when \<open>Less\<close> returned false, so the
  context it leaves is that of \<open>Less\<close> otherwise.)
\<close>

theorem C8_derived_comparisons:
  "(\<forall>e ctx1. Equal (Execute n) lhs rhs ctx = Done e ctx1 \<longrightarrow>
       NotEqual (Execute n) lhs rhs ctx = Done (\<not> e) ctx1)
   \<and> (\<forall>l ctx1. Less (Execute n) lhs rhs ctx = Done l ctx1 \<longrightarrow>
       GreaterOrEqual (Execute n) lhs rhs ctx = Done (\<not> l) ctx1
       \<and> (\<forall>e ctx2. Equal (Execute n) lhs rhs ctx1 = Done e ctx2 \<longrightarrow>
            Greater (Execute n) lhs rhs ctx = Done (\<not> l \<and> \<not> e) (if l then ctx1 else ctx2)
          \<and> LessOrEqual (Execute n) lhs rhs ctx = Done (\<not> (\<not> l \<and> \<not> e)) (if l then ctx1 else ctx2)))"
  by (simp add: NotEqual_def GreaterOrEqual_def Greater_def LessOrEqual_def negate_def)

theorem C8_derived_comparisons_witness:
  "NotEqual (Execute 0) (Some (Number 7)) (Some (Number (- 2))) empty_context = Done True empty_context
   \<and> GreaterOrEqual (Execute 0) (Some (Number 7)) (Some (Number (- 2))) empty_context = Done True empty_context
   \<and> Greater (Execute 0) (Some (Number 7)) (Some (Number (- 2))) empty_context = Done True empty_context
   \<and> LessOrEqual (Execute 0) (Some (Number 7)) (Some (Number (- 2))) empty_context = Done False empty_context
   \<and> Greater (Execute 0) (Some (String ''ab'')) (Some (String ''ab'')) empty_context = Done False empty_context
   \<and> LessOrEqual (Execute 0) (Some (String ''ab'')) (Some (String ''ab'')) empty_context = Done True empty_context
   \<and> Greater (Execute 0) (Some (Bool False)) (Some (Bool True)) empty_context = Done False empty_context
   \<and> LessOrEqual (Execute 0) (Some (Bool False)) (Some (Bool True)) empty_context = Done True empty_context"
proof -
  have eq: "Equal (Execute 0) (Some (Number 7)) (Some (Number (- 2))) empty_context = Done False empty_context"
    "Equal (Execute 0) (Some (String ''ab'')) (Some (String ''ab'')) empty_context = Done True empty_context"
    "Equal (Execute 0) (Some (Bool False)) (Some (Bool True)) empty_context = Done False empty_context"
    by (simp_all add: Equal_def)
  have lt: "Less (Execute 0) (Some (Number 7)) (Some (Number (- 2))) empty_context = Done False empty_context"
    "Less (Execute 0) (Some (String ''ab'')) (Some (String ''ab'')) empty_context = Done False empty_context"
    "Less (Execute 0) (Some (Bool False)) (Some (Bool True)) empty_context = Done True empty_context"
    by (simp_all add: Less_def)
  note n1 = C8_derived_comparisons [of 0 "Some (Number 7)" "Some (Number (- 2))" empty_context,
      THEN conjunct1, rule_format, OF eq(1)]
  note l1 = C8_derived_comparisons [of 0 "Some (Number 7)" "Some (Number (- 2))" empty_context,
      THEN conjunct2, rule_format, OF lt(1)]
  note l2 = C8_derived_comparisons [of 0 "Some (String ''ab'')" "Some (String ''ab'')" empty_context,
      THEN conjunct2, rule_format, OF lt(2)]
  note l3 = C8_derived_comparisons [of 0 "Some (Bool False)" "Some (Bool True)" empty_context,
      THEN conjunct2, rule_format, OF lt(3)]
  show ?thesis
    using n1 l1 [THEN conjunct1] l1 [THEN conjunct2, rule_format, OF eq(1)]
      l2 [THEN conjunct2, rule_format, OF eq(2)] l3 [THEN conjunct2, rule_format, OF eq(3)]
    by simp
qed

subsection \<open>FieldAssignment\<close>

text \<open>
  Claim C3 asks for a runtime error when the object of a \<open>FieldAssignment\<close> is not a class
  instance. The code has no such check: for a number, a string, a \<open>Bool\<close> or the empty
  holder, \<^verbatim>\<open>TryAs<ClassInstance>()\<close> is null and \<^verbatim>\<open>->Fields()\<close> dereferences it. Only for an
  instance is the field set and the assigned holder returned.
\<close>

theorem C3_FieldAssignment_non_instance:
  "Execute 2 (FieldAssignment (VariableValue ''a'' []) ''f'' (var ''b'')) numbers_closure empty_context = Undefined
   \<and> Execute 2 (FieldAssignment (VariableValue ''s'' []) ''f'' (var ''b'')) numbers_closure empty_context = Undefined
   \<and> Execute 2 (FieldAssignment (VariableValue ''e'' []) ''f'' (var ''b'')) numbers_closure empty_context = Undefined
   \<and> Execute 2 (FieldAssignment (VariableValue ''t'' []) ''f'' (var ''a'')) instance_closure instance_context = Undefined
   \<and> Execute 2 (FieldAssignment (VariableValue ''c'' []) ''f'' (var ''a'')) instance_closure instance_context =
       Done (Some (Number 7)) (instance_closure, set_field 0 ''f'' (Some (Number 7)) instance_context)"
  by (simp add: Execute_numeral Execute_node_def FieldAssignment_Execute_def VariableValue_Execute_def
      numbers_closure_simps instance_closure_simps deref_instance_context Execute_var)

section \<open>Properties of the lexer\<close>

subsection \<open>Every loop of the lexer ends\<close>

declare SkipNewLinesOnly.simps [simp del] ProcessSpaces_loop.simps [simp del]
  ProcessComment_loop.simps [simp del] ReadNumber_loop.simps [simp del]
  ReadString_loop.simps [simp del] ReadIdentifier_loop.simps [simp del]

lemma peek_Some:
  "peek s = (Some c, s1) \<Longrightarrow> s1 = s \<and> good s \<and> (\<exists>cs. remaining s = c # cs)"
  by (auto simp: peek_def split: if_splits list.splits)

lemma peek_remaining:
  "remaining (snd (peek s)) = remaining s"
  by (simp add: peek_def split: list.splits)

lemma get_Some:
  "get s = (Some c, s1) \<Longrightarrow> good s \<and> good s1 \<and> remaining s = c # remaining s1 \<and> consumed s1 = c # consumed s"
  by (auto simp: get_def good_def split: if_splits list.splits)

lemma get_None:
  "get s = (None, s1) \<Longrightarrow> failbit s1 \<and> remaining s1 = remaining s"
  by (auto simp: get_def split: if_splits list.splits)

lemma get_remaining_le:
  "length (remaining (snd (get s))) \<le> length (remaining s)"
  by (simp add: get_def split: list.splits)

lemma get_good:
  "good s \<Longrightarrow> remaining s = c # cs \<Longrightarrow> get s = (Some c, s\<lparr>consumed := c # consumed s, remaining := cs\<rparr>)"
  by (simp add: get_def)

lemma unget_after_get:
  "good s1 \<Longrightarrow> consumed s1 = c # cs \<Longrightarrow> remaining (unget s1) = c # remaining s1"
  by (simp add: unget_def good_def Let_def)

lemma unget_failed:
  "failbit s1 \<Longrightarrow> remaining (unget s1) = remaining s1"
  by (simp add: unget_def good_def Let_def)

lemma SkipNewLinesOnly_le:
  "length (remaining (SkipNewLinesOnly s)) \<le> length (remaining s)"
proof (induction "length (remaining s)" arbitrary: s rule: less_induct)
  case less
  show ?case
  proof (cases "peek s")
    case (Pair r s1)
    show ?thesis
    proof (cases r)
      case None
      then show ?thesis
        using Pair peek_remaining [of s] by (simp add: SkipNewLinesOnly.simps [of s])
    next
      case (Some c)
      then have s1: "s1 = s" "good s" and "\<exists>cs. remaining s = c # cs"
        using Pair peek_Some by blast+
      then obtain cs where cs: "remaining s = c # cs"
        by blast
      show ?thesis
      proof (cases "c = CHR 0x0A")
        case True
        have g: "snd (get s) = s\<lparr>consumed := c # consumed s, remaining := cs\<rparr>"
          using get_good [OF s1(2) cs] by simp
        have "length (remaining (SkipNewLinesOnly (snd (get s)))) \<le> length (remaining (snd (get s)))"
          by (rule less) (simp add: g cs)
        then show ?thesis
          using Pair Some True s1 g cs by (simp add: SkipNewLinesOnly.simps [of s])
      next
        case False
        then show ?thesis
          using Pair Some s1 by (simp add: SkipNewLinesOnly.simps [of s])
      qed
    qed
  qed
qed

lemma ProcessSpaces_loop_le:
  "length (remaining (unget (snd (ProcessSpaces_loop s n)))) \<le> length (remaining s)"
proof (induction "length (remaining s)" arbitrary: s n rule: less_induct)
  case less
  show ?case
  proof (cases "get s")
    case (Pair r s1)
    show ?thesis
    proof (cases r)
      case None
      then show ?thesis
        using Pair get_None [of s s1] by (simp add: ProcessSpaces_loop.simps [of s] unget_failed)
    next
      case (Some c)
      note g = get_Some [OF Pair [unfolded Some]]
      show ?thesis
      proof (cases "c = CHR '' ''")
        case True
        have "length (remaining (unget (snd (ProcessSpaces_loop s1 (Suc n))))) \<le> length (remaining s1)"
          by (rule less) (simp add: g)
        then show ?thesis
          using Pair Some True g by (simp add: ProcessSpaces_loop.simps [of s])
      next
        case False
        then show ?thesis
          using Pair Some g unget_after_get [of s1 c "consumed s"]
          by (simp add: ProcessSpaces_loop.simps [of s])
      qed
    qed
  qed
qed

lemma ProcessSpaces_le:
  "length (remaining (snd (ProcessSpaces s))) \<le> length (remaining s)"
  using ProcessSpaces_loop_le [of s 0]
  by (cases "ProcessSpaces_loop s 0") (simp add: ProcessSpaces_def)

lemma ProcessSpaces_less:
  assumes "good s" and "remaining s = CHR '' '' # cs"
  shows "length (remaining (snd (ProcessSpaces s))) < length (remaining s)"
proof -
  let ?s1 = "s\<lparr>consumed := CHR '' '' # consumed s, remaining := cs\<rparr>"
  have "ProcessSpaces_loop s 0 = ProcessSpaces_loop ?s1 (Suc 0)"
    using get_good [OF assms] by (simp add: ProcessSpaces_loop.simps [of s])
  then have "length (remaining (snd (ProcessSpaces s))) \<le> length (remaining ?s1)"
    using ProcessSpaces_loop_le [of ?s1 "Suc 0"]
    by (cases "ProcessSpaces_loop ?s1 (Suc 0)") (simp add: ProcessSpaces_def)
  then show ?thesis
    using assms by simp
qed

lemma ProcessComment_loop_le:
  "ProcessComment_loop s = Some s2 \<Longrightarrow> length (remaining (unget s2)) \<le> length (remaining s)"
proof (induction "length (remaining s)" arbitrary: s rule: less_induct)
  case less
  show ?case
  proof (cases "get s")
    case (Pair r s1)
    show ?thesis
    proof (cases r)
      case None
      then show ?thesis
        using Pair get_None [of s s1] less.prems
        by (auto simp: ProcessComment_loop.simps [of s] unget_failed split: if_splits)
    next
      case (Some c)
      note g = get_Some [OF Pair [unfolded Some]]
      show ?thesis
      proof (cases "c = CHR 0x0A \<or> eof s1")
        case True
        then have "s2 = s1"
          using Pair Some less.prems by (simp add: ProcessComment_loop.simps [of s])
        then show ?thesis
          using g unget_after_get [of s1 c "consumed s"] by simp
      next
        case False
        then have "ProcessComment_loop s1 = Some s2"
          using Pair Some less.prems by (simp add: ProcessComment_loop.simps [of s])
        then have "length (remaining (unget s2)) \<le> length (remaining s1)"
          using less.hyps [of s1] g by simp
        then show ?thesis
          using g by simp
      qed
    qed
  qed
qed

lemma ProcessComment_less:
  assumes "good s" and "remaining s = CHR ''#'' # cs" and "ProcessComment s = Lexed s2"
  shows "length (remaining s2) < length (remaining s)"
proof -
  let ?s1 = "s\<lparr>consumed := CHR ''#'' # consumed s, remaining := cs\<rparr>"
  have "\<not> eof ?s1"
    using assms(1) by (simp add: eof_def good_def)
  then have "ProcessComment_loop s = ProcessComment_loop ?s1"
    using get_good [OF assms(1,2)] by (simp add: ProcessComment_loop.simps [of s])
  moreover obtain s3 where "ProcessComment_loop s = Some s3" and "s2 = unget s3"
    using assms(3) by (auto simp: ProcessComment_def split: option.splits)
  ultimately have "length (remaining s2) \<le> length (remaining ?s1)"
    using ProcessComment_loop_le [of ?s1 s3] by simp
  then show ?thesis
    using assms(2) by simp
qed

lemma ReadNumber_loop_le:
  "length (remaining (snd (ReadNumber_loop s p))) \<le> length (remaining s)"
proof (induction "length (remaining s)" arbitrary: s p rule: less_induct)
  case less
  show ?case
  proof (cases "peek s")
    case (Pair r s1)
    show ?thesis
    proof (cases r)
      case None
      then show ?thesis
        using Pair peek_remaining [of s] by (simp add: ReadNumber_loop.simps [of s])
    next
      case (Some c)
      then have s1: "s1 = s" "good s" and "\<exists>cs. remaining s = c # cs"
        using Pair peek_Some by blast+
      then obtain cs where cs: "remaining s = c # cs"
        by blast
      let ?s2 = "s\<lparr>consumed := c # consumed s, remaining := cs\<rparr>"
      show ?thesis
      proof (cases "isdigit c")
        case True
        have "length (remaining (snd (ReadNumber_loop ?s2 (p @ [c])))) \<le> length (remaining ?s2)"
          by (rule less) (simp add: cs)
        then show ?thesis
          using Pair Some True s1 cs get_good [OF s1(2) cs]
          by (simp add: ReadNumber_loop.simps [of s] to_char_def)
      next
        case False
        then show ?thesis
          using Pair Some s1 by (simp add: ReadNumber_loop.simps [of s])
      qed
    qed
  qed
qed

lemma ReadNumber_less:
  assumes "good s" and "remaining s = c # cs" and "isdigit c" and "ReadNumber line s = Lexed (line1, s2)"
  shows "length (remaining s2) < length (remaining s)"
proof -
  let ?s1 = "s\<lparr>consumed := c # consumed s, remaining := cs\<rparr>"
  have "ReadNumber_loop s [] = ReadNumber_loop ?s1 [c]"
    using assms(1,2,3) get_good [OF assms(1,2)]
    by (simp add: ReadNumber_loop.simps [of s] peek_def to_char_def)
  moreover have "s2 = snd (ReadNumber_loop s [])"
    using assms(4) by (auto simp: ReadNumber_def split: prod.splits lexed.splits)
  ultimately have "length (remaining s2) \<le> length (remaining ?s1)"
    using ReadNumber_loop_le [of ?s1 "[c]"] by simp
  then show ?thesis
    using assms(2) by simp
qed

lemma ReadString_loop_le:
  "ReadString_loop q it str = Lexed (str1, it1) \<Longrightarrow> length (remaining it1) \<le> length (remaining it)"
proof (induction "length (remaining it)" arbitrary: it str rule: less_induct)
  case less
  show ?case
  proof (cases "remaining it")
    case Nil
    then show ?thesis
      using less.prems by (simp add: ReadString_loop.simps [of q it] sgetc_def)
  next
    case (Cons ch cs)
    let ?it1 = "it\<lparr>consumed := ch # consumed it, remaining := cs\<rparr>"
    have b: "sbumpc it = ?it1" and g: "sgetc it = Some ch"
      using Cons by (simp_all add: sbumpc_def sgetc_def)
    have step: "\<And>str2. ReadString_loop q ?it1 str2 = Lexed (str1, it1) \<Longrightarrow> length (remaining it1) \<le> length cs"
      using less.hyps [of ?it1] Cons by simp
    show ?thesis
    proof (cases "ch = q")
      case True
      then show ?thesis
        using less.prems Cons g by (auto simp: ReadString_loop.simps [of q it] sbumpc_def)
    next
      case nq: False
      show ?thesis
      proof (cases "ch = CHR 0x5C")
        case True
        show ?thesis
        proof (cases cs)
          case Nil
          then show ?thesis
            using less.prems nq True b g by (simp add: ReadString_loop.simps [of q it] sgetc_def)
        next
          case (Cons e cs2)
          let ?it2 = "?it1\<lparr>consumed := e # consumed ?it1, remaining := cs2\<rparr>"
          have b2: "sbumpc ?it1 = ?it2" and g2: "sgetc ?it1 = Some e"
            using Cons by (simp_all add: sbumpc_def sgetc_def)
          have rec: "\<And>str2. ReadString_loop q ?it2 str2 = Lexed (str1, it1) \<Longrightarrow> length (remaining it1) \<le> length cs2"
            using less.hyps [of ?it2] \<open>remaining it = ch # cs\<close> Cons by simp
          obtain c where "ReadString_loop q ?it2 (str @ [c]) = Lexed (str1, it1)"
            using less.prems nq True b g b2 g2
            by (auto simp: ReadString_loop.simps [of q it] split: option.splits)
          then have "length (remaining it1) \<le> length cs2"
            by (rule rec)
          then show ?thesis
            using \<open>remaining it = ch # cs\<close> Cons by simp
        qed
      next
        case False
        then have "ReadString_loop q ?it1 (str @ [ch]) = Lexed (str1, it1)"
          using less.prems nq b g
          by (auto simp: ReadString_loop.simps [of q it] split: if_splits)
        then have "length (remaining it1) \<le> length cs"
          by (rule step)
        then show ?thesis
          using Cons by simp
      qed
    qed
  qed
qed

lemma ReadString_less:
  assumes "good s" and "remaining s = c # cs" and "ReadString line s = Lexed (line1, s2)"
  shows "length (remaining s2) < length (remaining s)"
proof -
  let ?s1 = "s\<lparr>consumed := c # consumed s, remaining := cs\<rparr>"
  obtain str where "ReadString_loop c ?s1 [] = Lexed (str, s2)"
    using assms(3) get_good [OF assms(1,2)]
    by (auto simp: ReadString_def to_char_def split: lexed.splits)
  then have "length (remaining s2) \<le> length (remaining ?s1)"
    by (rule ReadString_loop_le)
  then show ?thesis
    using assms(2) by simp
qed

lemma ReadIdentifier_loop_le:
  "length (remaining (unget (snd (ReadIdentifier_loop s p)))) \<le> length (remaining s)"
proof (induction "length (remaining s)" arbitrary: s p rule: less_induct)
  case less
  show ?case
  proof (cases "get s")
    case (Pair r s1)
    show ?thesis
    proof (cases r)
      case None
      then show ?thesis
        using Pair get_None [of s s1] by (simp add: ReadIdentifier_loop.simps [of s] unget_failed)
    next
      case (Some c)
      note g = get_Some [OF Pair [unfolded Some]]
      show ?thesis
      proof (cases "isalpha c \<or> c = CHR ''_'' \<or> isdigit c")
        case True
        have "length (remaining (unget (snd (ReadIdentifier_loop s1 (p @ [c]))))) \<le> length (remaining s1)"
          by (rule less) (simp add: g)
        then show ?thesis
          using Pair Some True g by (simp add: ReadIdentifier_loop.simps [of s])
      next
        case False
        then show ?thesis
          using Pair Some g unget_after_get [of s1 c "consumed s"]
          by (simp add: ReadIdentifier_loop.simps [of s])
      qed
    qed
  qed
qed

lemma ReadIdentifier_less:
  assumes "good s" and "remaining s = c # cs" and "isalpha c \<or> c = CHR ''_''"
  shows "length (remaining (snd (ReadIdentifier line s))) < length (remaining s)"
proof -
  let ?s1 = "s\<lparr>consumed := c # consumed s, remaining := cs\<rparr>"
  have "ReadIdentifier_loop s [] = ReadIdentifier_loop ?s1 [c]"
    using assms(3) get_good [OF assms(1,2)] by (auto simp: ReadIdentifier_loop.simps [of s])
  then have "length (remaining (snd (ReadIdentifier line s))) \<le> length (remaining ?s1)"
    using ReadIdentifier_loop_le [of ?s1 "[c]"]
    by (cases "ReadIdentifier_loop ?s1 [c]") (simp add: ReadIdentifier_def)
  then show ?thesis
    using assms(2) by simp
qed


lemma ReadLine_step_less:
  assumes "peek s = (r, s1)"
    and "ReadLine_step (to_char r) line s1 = Lexed (line1, s2)"
    and "\<not> is_EOF (to_char r)"
  shows "length (remaining s2) < length (remaining s)"
proof -
  obtain ch where r: "r = Some ch"
    using assms(3) by (cases r) (simp_all add: to_char_def is_EOF_def)
  then have s1: "s1 = s" and good: "good s" and "\<exists>cs. remaining s = ch # cs"
    using assms(1) peek_Some by blast+
  then obtain cs where cs: "remaining s = ch # cs"
    by blast
  have ch: "to_char r = ch"
    using r by (simp add: to_char_def)
  note step = assms(2) [unfolded ch s1]
  consider (space) "ch = CHR '' ''"
    | (comment) "ch \<noteq> CHR '' ''" "ch = CHR ''#''"
    | (string) "ch \<noteq> CHR '' ''" "ch \<noteq> CHR ''#''" "ch = CHR 0x22 \<or> ch = CHR 0x27"
    | (number) "ch \<noteq> CHR '' ''" "ch \<noteq> CHR ''#''" "\<not> (ch = CHR 0x22 \<or> ch = CHR 0x27)" "isdigit ch"
    | (ident) "ch \<noteq> CHR '' ''" "ch \<noteq> CHR ''#''" "\<not> (ch = CHR 0x22 \<or> ch = CHR 0x27)" "\<not> isdigit ch"
        "isalpha ch \<or> ch = CHR ''_''"
    | (other) "ch \<noteq> CHR '' ''" "ch \<noteq> CHR ''#''" "\<not> (ch = CHR 0x22 \<or> ch = CHR 0x27)" "\<not> isdigit ch"
        "\<not> (isalpha ch \<or> ch = CHR ''_'')"
    by blast
  then show ?thesis
  proof cases
    case space
    then have "s2 = snd (ProcessSpaces s)"
      using step by (simp add: ReadLine_step_def)
    then show ?thesis
      using ProcessSpaces_less [OF good cs [unfolded space]] by simp
  next
    case comment
    then have "ProcessComment s = Lexed s2"
      using step by (auto simp: ReadLine_step_def split: lexed.splits)
    then show ?thesis
      using ProcessComment_less [OF good cs [unfolded comment(2)]] by simp
  next
    case string
    then have "ReadString line s = Lexed (line1, s2)"
      using step assms(3) ch by (auto simp: ReadLine_step_def)
    then show ?thesis
      using ReadString_less [OF good cs] by simp
  next
    case number
    then have "ReadNumber line s = Lexed (line1, s2)"
      using step assms(3) ch by (auto simp: ReadLine_step_def)
    then show ?thesis
      using ReadNumber_less [OF good cs number(4)] by simp
  next
    case ident
    then have "s2 = snd (ReadIdentifier line s)"
      using step assms(3) ch by (auto simp: ReadLine_step_def)
    then show ?thesis
      using ReadIdentifier_less [OF good cs ident(5)] by simp
  next
    case other
    let ?s1 = "s\<lparr>consumed := ch # consumed s, remaining := cs\<rparr>"
    have g: "get s = (Some ch, ?s1)"
      by (rule get_good [OF good cs])
    have "length (remaining s2) \<le> length (remaining ?s1)"
      using step other assms(3) ch g peek_remaining [of ?s1] get_remaining_le [of "snd (peek ?s1)"]
      by (auto simp: ReadLine_step_def to_char_def ReadCompSymb_def split: prod.splits if_splits)
    then show ?thesis
      using cs by simp
  qed
qed

termination ReadLine_loop
  by (relation "measure (\<lambda>(line, s). length (remaining s))")
     (auto dest: ReadLine_step_less [OF sym])

declare ReadLine_loop.simps [simp del]

lemma ReadLine_step_EOF:
  assumes "is_EOF ch" and "ReadLine_step ch line s1 = Lexed (line1, s2)"
  shows "s2 = s1 \<and>
    (line_tokens line1 = line_tokens line @ [Eof_tok]
     \<or> \<not> IsEmpty line \<and> line_tokens line1 = line_tokens line @ [Newline_tok, Eof_tok])"
  using assms by (auto simp: ReadLine_step_def is_EOF_def emplace_back_def)

lemma ReadLine_loop_consumes:
  "ReadLine_loop line s = Lexed (line1, s2) \<Longrightarrow>
   length (remaining s2) < length (remaining s)
   \<or> length (remaining s2) = length (remaining s)
     \<and> (line_tokens line1 = line_tokens line @ [Eof_tok]
        \<or> \<not> IsEmpty line \<and> line_tokens line1 = line_tokens line @ [Newline_tok, Eof_tok])"
proof (induction "length (remaining s)" arbitrary: s line rule: less_induct)
  case less
  obtain r s1 where p: "peek s = (r, s1)"
    by (cases "peek s")
  obtain line' s' where step: "ReadLine_step (to_char r) line s1 = Lexed (line', s')"
    using less.prems p by (auto simp: ReadLine_loop.simps [of line s] split: lexed.splits)
  show ?case
  proof (cases "is_EOF (to_char r)")
    case True
    then have "line1 = line'" "s2 = s'"
      using less.prems p step by (simp_all add: ReadLine_loop.simps [of line s])
    then show ?thesis
      using ReadLine_step_EOF [OF True step] p peek_remaining [of s] by auto
  next
    case False
    note lt = ReadLine_step_less [OF p step False]
    show ?thesis
    proof (cases "to_char r = CHR 0x0A")
      case True
      then have "s2 = s'"
        using less.prems p step by (simp add: ReadLine_loop.simps [of line s])
      then show ?thesis
        using lt by simp
    next
      case nl: False
      then have rec: "ReadLine_loop line' s' = Lexed (line1, s2)"
        using less.prems p step False by (simp add: ReadLine_loop.simps [of line s])
      have "length (remaining s2) \<le> length (remaining s')"
        using less.hyps [OF lt rec] by linarith
      then show ?thesis
        using lt by simp
    qed
  qed
qed

lemma LineOfCode_ctor_consumes:
  assumes "LineOfCode_ctor s = Lexed (line, s2)" and "\<not> IsAllEof line"
  shows "length (remaining s2) < length (remaining s)"
proof -
  obtain n s1 where ps: "ProcessSpaces (SkipNewLinesOnly s) = (n, s1)"
    by (cases "ProcessSpaces (SkipNewLinesOnly s)")
  then have le: "length (remaining s1) \<le> length (remaining s)"
    using ProcessSpaces_le [of "SkipNewLinesOnly s"] SkipNewLinesOnly_le [of s] by simp
  have loop: "ReadLine_loop \<lparr>starting_spaces = n, line_tokens = []\<rparr> s1 = Lexed (line, s2)"
    using assms(1) ps by (simp add: LineOfCode_ctor_def ReadLine_def)
  have "line_tokens line \<noteq> [Eof_tok]"
    using assms(2) by (auto simp: IsAllEof_def)
  then have "length (remaining s2) < length (remaining s1)"
    using ReadLine_loop_consumes [OF loop] by (auto simp: IsEmpty_def)
  then show ?thesis
    using le by simp
qed

termination ParseLine
  by (relation "measure (\<lambda>lx. length (remaining (input lx)))")
     (auto dest: LineOfCode_ctor_consumes)

declare ParseLine.simps [simp del]

subsection \<open>Evaluation\<close>

lemmas lexer_eval =
  Lexer_ctor_def ParseLine.simps LineOfCode_ctor_def ReadLine_def ReadLine_loop.simps ReadLine_step_def
  SkipNewLinesOnly.simps ProcessSpaces_def ProcessSpaces_loop.simps ProcessComment_def
  ProcessComment_loop.simps ReadNumber_def ReadNumber_loop.simps stoi_def decimal_value_def digit_value_def
  ReadString_def ReadString_loop.simps escape_def ReadIdentifier_def ReadIdentifier_loop.simps
  keyword_or_Id_def ReadCompSymb_def
  istringstream_def good_def eof_def peek_def get_def unget_def sgetc_def sbumpc_def to_char_def is_EOF_def
  isdigit_def isalpha_def emplace_back_def IsEmpty_def IsAllEof_def
  CurrentToken_def return_CurrentToken_def append_line_def append_Eof_def NextToken_def Let_def
  lex_prefix_def first_line_def

lemmas example_sources =
  source_unterminated_def source_terminated_def source_x_def source_odd_x_def source_odd_blank_def
  source_odd_comment_def source_even_comment_def

subsection \<open>The token stream at the end of the input\<close>

text \<open>
  Claim C1 asks that the stream end with the dedents that close the open indents and then
  one \<open>Eof\<close>, also when the last line has no newline. The code does so only when the
  last line ends with a newline (the third source below). Without it, \<open>ReadLine\<close> puts
  \<open>Eof\<close> among the tokens of the last line and \<open>ParseLine\<close> copies them: the client reads
  \<open>Eof\<close> while an \<open>Indent\<close> is still open, and a further \<open>NextToken\<close> appends the
  \<open>Dedent\<close> and a second \<open>Eof\<close>.
\<close>

theorem C1_Eof_before_Dedent:
  "lex_prefix 7 source_unterminated =
     Lexed (Eof_tok,
       [If_tok, Id_tok ''x'', Char_tok CHR '':'', Newline_tok,
        Indent_tok, Id_tok ''y'', Newline_tok, Eof_tok])
   \<and> lex_prefix 9 source_unterminated =
     Lexed (Eof_tok,
       [If_tok, Id_tok ''x'', Char_tok CHR '':'', Newline_tok,
        Indent_tok, Id_tok ''y'', Newline_tok, Eof_tok, Dedent_tok, Eof_tok])
   \<and> lex_prefix 8 source_terminated =
     Lexed (Eof_tok,
       [If_tok, Id_tok ''x'', Char_tok CHR '':'', Newline_tok,
        Indent_tok, Id_tok ''y'', Newline_tok, Dedent_tok, Eof_tok])"
  by (simp add: example_sources lexer_eval eval_nat_numeral)

subsection \<open>Incorrect indent\<close>

text \<open>
  Claim C2, as stated, lets blank and comment-only lines pass whatever their leading
  spaces. It fails: \<open>ParseLine\<close> tests the parity of the leading spaces before it looks at
  the tokens of the line, so a line of one space, or of one space and a comment, raises
  \<^verbatim>\<open>Incorrect indent.\<close>
\<close>

theorem C2_blank_line_counterexample:
  "first_line source_odd_blank = Lexed \<lparr>starting_spaces = 1, line_tokens = [Newline_tok]\<rparr>
   \<and> IsEmpty \<lparr>starting_spaces = 1, line_tokens = [Newline_tok]\<rparr>
   \<and> Lexer_ctor (istringstream source_odd_blank) = Throws (LexerError ''Incorrect indent.'')
   \<and> first_line source_odd_comment = Lexed \<lparr>starting_spaces = 1, line_tokens = [Newline_tok]\<rparr>
   \<and> Lexer_ctor (istringstream source_odd_comment) = Throws (LexerError ''Incorrect indent.'')"
  by (simp add: example_sources lexer_eval)

lemma return_CurrentToken_append_line:
  "\<not> IsEmpty line \<Longrightarrow> \<exists>t lx1. return_CurrentToken (append_line line lx) = Lexed (t, lx1)"
  by (auto simp: return_CurrentToken_def CurrentToken_def append_line_def IsEmpty_def Let_def)

lemma return_CurrentToken_append_Eof:
  "\<exists>t lx1. return_CurrentToken (append_Eof lx) = Lexed (t, lx1)"
  by (auto simp: return_CurrentToken_def CurrentToken_def append_Eof_def Let_def)

text \<open>
  Claim C2, amended. For a line that \<open>LineOfCode\<close> reads without an error of its own,
  \<open>ParseLine\<close> throws \<^verbatim>\<open>Incorrect indent.\<close> if the number of its leading spaces is odd,
  whatever the line holds. If the number is even, a line with nothing but its newline
  (blank or comment-only) is skipped, \<open>ParseLine\<close> going on with the next line and the
  lexer's tokens, cursor and indent unchanged; any other line, and the end of the input,
  makes \<open>ParseLine\<close> return a token.
\<close>

theorem C2_Incorrect_indent:
  assumes "LineOfCode_ctor (input lx) = Lexed (line, s)"
  shows "(odd (starting_spaces line) \<longrightarrow> ParseLine lx = Throws (LexerError ''Incorrect indent.''))
       \<and> (even (starting_spaces line) \<and> IsEmpty line \<and> \<not> IsAllEof line \<longrightarrow>
            ParseLine lx = ParseLine (lx\<lparr>input := s\<rparr>))
       \<and> (even (starting_spaces line) \<and> (\<not> IsEmpty line \<or> IsAllEof line) \<longrightarrow>
            (\<exists>t lx1. ParseLine lx = Lexed (t, lx1)))"
  using assms return_CurrentToken_append_line [of line "lx\<lparr>input := s\<rparr>"]
    return_CurrentToken_append_Eof [of "lx\<lparr>input := s\<rparr>"]
  by (auto simp: ParseLine.simps [of lx] odd_iff_mod_2_eq_one)


theorem C2_Incorrect_indent_witness:
  "Lexer_ctor (istringstream source_odd_x) = Throws (LexerError ''Incorrect indent.'')
   \<and> lex_prefix 0 source_even_comment = Lexed (Id_tok ''x'', [Id_tok ''x'', Newline_tok])
   \<and> lex_prefix 0 source_x = Lexed (Id_tok ''x'', [Id_tok ''x'', Newline_tok])"
proof -
  let ?lx = "\<lambda>src. \<lparr>tokens = [], input = istringstream src, cur_token = 0, cur_indent = 0\<rparr>"
  have "\<exists>line s. LineOfCode_ctor (input (?lx source_odd_x)) = Lexed (line, s) \<and> odd (starting_spaces line)"
    by (simp add: example_sources lexer_eval)
  then have odd: "ParseLine (?lx source_odd_x) = Throws (LexerError ''Incorrect indent.'')"
    using C2_Incorrect_indent [of "?lx source_odd_x"] by blast
  have "\<exists>line s. LineOfCode_ctor (input (?lx source_even_comment)) = Lexed (line, s)
      \<and> even (starting_spaces line) \<and> IsEmpty line \<and> \<not> IsAllEof line
      \<and> ParseLine (?lx source_even_comment\<lparr>input := s\<rparr>) =
          Lexed (Id_tok ''x'', \<lparr>tokens = [Id_tok ''x'', Newline_tok],
            input = \<lparr>consumed = rev source_even_comment, remaining = [], eofbit = False,
              failbit = False, badbit = False\<rparr>,
            cur_token = 0, cur_indent = 0\<rparr>)"
    by (simp add: example_sources lexer_eval)
  then have skip: "ParseLine (?lx source_even_comment) =
      Lexed (Id_tok ''x'', \<lparr>tokens = [Id_tok ''x'', Newline_tok],
        input = \<lparr>consumed = rev source_even_comment, remaining = [], eofbit = False,
          failbit = False, badbit = False\<rparr>,
        cur_token = 0, cur_indent = 0\<rparr>)"
    using C2_Incorrect_indent [of "?lx source_even_comment"] by metis
  have x: "lex_prefix 0 source_x = Lexed (Id_tok ''x'', [Id_tok ''x'', Newline_tok])"
    by (simp add: example_sources lexer_eval)
  show ?thesis
    using odd skip x
    by (simp add: Lexer_ctor_def lex_prefix_def return_CurrentToken_def CurrentToken_def)
qed

end
